theory Spec2Isabelle
  imports Main "HOL-Library.AList" "HOL-Library.Sublist"
begin

section \<open>Python values that travel through the proxy\<close>

text \<open>
  Every message is the result of \<^verbatim>\<open>json.loads\<close>: \<^verbatim>\<open>None\<close>, a bool, a number, a string, a
  list or a dict. A dict is an association list in insertion order; \<^verbatim>\<open>json.loads\<close> produces
  distinct keys. Numbers are integers here (JSON floats are not modelled). Python's
  \<^verbatim>\<open>None\<close> is \<open>JNull\<close>, so a function that returns \<^verbatim>\<open>Optional[Dict]\<close> returns a \<open>json\<close>.
\<close>

datatype json =
    JNull
  | JBool bool
  | JInt int
  | JStr string
  | JArr "json list"
  | JObj "(string \<times> json) list"

text \<open>Exceptions are values: the class, and what \<^verbatim>\<open>str(e)\<close> needs.\<close>

datatype exn =
    AttributeError string string
  | TypeError string
  | KeyError string
  | ValueError string
  | RuntimeError string

fun py_type_name :: "json \<Rightarrow> string" where
  "py_type_name JNull = ''NoneType''"
| "py_type_name (JBool b) = ''bool''"
| "py_type_name (JInt n) = ''int''"
| "py_type_name (JStr s) = ''str''"
| "py_type_name (JArr xs) = ''list''"
| "py_type_name (JObj kvs) = ''dict''"

definition quoted :: "string \<Rightarrow> string" where
  "quoted s = [CHR 0x27] @ s @ [CHR 0x27]"

fun exn_str :: "exn \<Rightarrow> string" where
  "exn_str (AttributeError t a) = quoted t @ '' object has no attribute '' @ quoted a"
| "exn_str (TypeError m) = m"
| "exn_str (KeyError k) = quoted k"
| "exn_str (ValueError m) = m"
| "exn_str (RuntimeError m) = m"

text \<open>Truth value testing (\<^verbatim>\<open>if x:\<close>, \<^verbatim>\<open>not x\<close>, \<^verbatim>\<open>x and y\<close>).\<close>

fun truthy :: "json \<Rightarrow> bool" where
  "truthy JNull = False"
| "truthy (JBool b) = b"
| "truthy (JInt n) = (n \<noteq> 0)"
| "truthy (JStr s) = (s \<noteq> [])"
| "truthy (JArr xs) = (xs \<noteq> [])"
| "truthy (JObj kvs) = (kvs \<noteq> [])"

text \<open>
  Python's \<^verbatim>\<open>==\<close> on these values: \<^verbatim>\<open>True == 1\<close> and \<^verbatim>\<open>False == 0\<close>, lists compare
  elementwise, dicts compare as mappings (same keys, equal values, order ignored).
\<close>

fun py_eq :: "json \<Rightarrow> json \<Rightarrow> bool"
  and py_eq_list :: "json list \<Rightarrow> json list \<Rightarrow> bool"
  and py_eq_items :: "(string \<times> json) list \<Rightarrow> (string \<times> json) list \<Rightarrow> bool"
where
  "py_eq JNull b = (b = JNull)"
| "py_eq (JBool x) b =
     (case b of JBool y \<Rightarrow> x = y | JInt n \<Rightarrow> n = (if x then 1 else 0) | _ \<Rightarrow> False)"
| "py_eq (JInt m) b =
     (case b of JInt n \<Rightarrow> m = n | JBool y \<Rightarrow> m = (if y then 1 else 0) | _ \<Rightarrow> False)"
| "py_eq (JStr s) b = (b = JStr s)"
| "py_eq (JArr xs) b = (case b of JArr ys \<Rightarrow> py_eq_list xs ys | _ \<Rightarrow> False)"
| "py_eq (JObj kvs) b =
     (case b of JObj kws \<Rightarrow> length kvs = length kws \<and> py_eq_items kvs kws | _ \<Rightarrow> False)"
| "py_eq_list [] ys = (ys = [])"
| "py_eq_list (x # xs) ys =
     (case ys of [] \<Rightarrow> False | y # ys' \<Rightarrow> py_eq x y \<and> py_eq_list xs ys')"
| "py_eq_items [] kws = True"
| "py_eq_items (kv # kvs) kws =
     (case map_of kws (fst kv) of
        None \<Rightarrow> False
      | Some w \<Rightarrow> py_eq (snd kv) w \<and> py_eq_items kvs kws)"

text \<open>\<^verbatim>\<open>isinstance(x, dict)\<close>, \<^verbatim>\<open>x.get(k, d)\<close> and \<^verbatim>\<open>k in x\<close> for a string \<open>k\<close>.\<close>

fun is_dict :: "json \<Rightarrow> bool" where
  "is_dict (JObj kvs) = True"
| "is_dict v = False"

fun py_get :: "json \<Rightarrow> string \<Rightarrow> json \<Rightarrow> exn + json" where
  "py_get (JObj kvs) k d = Inr (case map_of kvs k of None \<Rightarrow> d | Some v \<Rightarrow> v)"
| "py_get v k d = Inl (AttributeError (py_type_name v) ''get'')"

fun py_in :: "string \<Rightarrow> json \<Rightarrow> exn + bool" where
  "py_in k (JObj kvs) = Inr (k \<in> set (map fst kvs))"
| "py_in k (JArr xs) = Inr (list_ex (py_eq (JStr k)) xs)"
| "py_in k (JStr s) = Inr (sublist k s)"
| "py_in k v =
     Inl (TypeError (''argument of type '' @ quoted (py_type_name v) @ '' is not iterable''))"

text \<open>
  \<^verbatim>\<open>str(x)\<close>, as the f-strings of the error messages use it, and \<^verbatim>\<open>repr(x)\<close> for what
  stands inside a list or a dict. \<^verbatim>\<open>repr\<close> of a string takes double quotes when the string
  has a single quote and no double quote, single quotes otherwise, and escapes the
  backslash, the chosen quote and the control characters. Characters beyond ASCII are
  kept as they are (Python escapes those that are not printable).
\<close>

fun show_nat :: "nat \<Rightarrow> string" where
  "show_nat n =
     (if n < 10 then [char_of (48 + n)] else show_nat (n div 10) @ [char_of (48 + n mod 10)])"

definition show_int :: "int \<Rightarrow> string" where
  "show_int i = (if i < 0 then ''-'' @ show_nat (nat (- i)) else show_nat (nat i))"

fun join_with :: "string \<Rightarrow> string list \<Rightarrow> string" where
  "join_with sep [] = []"
| "join_with sep [x] = x"
| "join_with sep (x # y # ys) = x @ sep @ join_with sep (y # ys)"

definition hex_digit :: "nat \<Rightarrow> char" where
  "hex_digit n = (if n < 10 then char_of (48 + n) else char_of (87 + n))"

definition escape_char :: "char \<Rightarrow> char \<Rightarrow> string" where
  "escape_char q c =
     (if c = CHR 0x5C then [CHR 0x5C, CHR 0x5C]
      else if c = q then [CHR 0x5C, c]
      else if c = CHR 0x0A then [CHR 0x5C, CHR ''n'']
      else if c = CHR 0x0D then [CHR 0x5C, CHR ''r'']
      else if c = CHR 0x09 then [CHR 0x5C, CHR ''t'']
      else if (of_char c :: nat) < 32 \<or> (of_char c :: nat) = 127
      then [CHR 0x5C, CHR ''x'', hex_digit (of_char c div 16), hex_digit (of_char c mod 16)]
      else [c])"

definition py_repr_str :: "string \<Rightarrow> string" where
  "py_repr_str s =
     (let q = (if CHR 0x27 \<in> set s \<and> CHR 0x22 \<notin> set s then CHR 0x22 else CHR 0x27)
      in [q] @ concat (map (escape_char q) s) @ [q])"

fun py_repr :: "json \<Rightarrow> string"
  and py_repr_list :: "json list \<Rightarrow> string list"
  and py_repr_items :: "(string \<times> json) list \<Rightarrow> string list"
where
  "py_repr JNull = ''None''"
| "py_repr (JBool b) = (if b then ''True'' else ''False'')"
| "py_repr (JInt n) = show_int n"
| "py_repr (JStr s) = py_repr_str s"
| "py_repr (JArr xs) = ''['' @ join_with '', '' (py_repr_list xs) @ '']''"
| "py_repr (JObj kvs) = ''{'' @ join_with '', '' (py_repr_items kvs) @ ''}''"
| "py_repr_list [] = []"
| "py_repr_list (x # xs) = py_repr x # py_repr_list xs"
| "py_repr_items [] = []"
| "py_repr_items (kv # kvs) =
     (py_repr_str (fst kv) @ '': '' @ py_repr (snd kv)) # py_repr_items kvs"

definition py_str :: "json \<Rightarrow> string" where
  "py_str v = (case v of JStr s \<Rightarrow> s | _ \<Rightarrow> py_repr v)"

text \<open>Sequencing of calls that may raise: the first exception ends the computation.\<close>

definition and_then :: "exn + 'a \<Rightarrow> ('a \<Rightarrow> exn + 'b) \<Rightarrow> exn + 'b" where
  "and_then m f = (case m of Inl e \<Rightarrow> Inl e | Inr v \<Rightarrow> f v)"

section \<open>proxy.py: the error-response constructor and the validators\<close>

text \<open>
  \<^verbatim>\<open>MCPProxy._create_error_response(original_message, code, message)\<close>:
  \<^verbatim>\<open>message_id = original_message.get("id") if original_message else None\<close>, then
  \<^verbatim>\<open>None\<close> when \<^verbatim>\<open>message_id is None\<close>, else the error dict.
\<close>

definition create_error_response :: "json \<Rightarrow> int \<Rightarrow> string \<Rightarrow> exn + json" where
  "create_error_response original_message code message =
     and_then (if truthy original_message then py_get original_message ''id'' JNull else Inr JNull)
       (\<lambda>message_id.
          if message_id = JNull then Inr JNull
          else Inr (JObj [(''jsonrpc'', JStr ''2.0''),
                          (''id'', message_id),
                          (''error'', JObj [(''code'', JInt code), (''message'', JStr message)])]))"

text \<open>
  What the per-connection loop does with the value the router returned (lines 713-723):
  \<^verbatim>\<open>if response: client_file.write(json.dumps(response) + "\n")\<close>; an exception leaves the
  loop with nothing written. The lines written are listed as the values serialised.
\<close>

definition client_output :: "exn + json \<Rightarrow> json list" where
  "client_output r = (case r of Inl e \<Rightarrow> [] | Inr response \<Rightarrow> if truthy response then [response] else [])"

text \<open>\<^verbatim>\<open>MCPProxy._is_valid_jsonrpc_message\<close> (lines 866-891).\<close>

definition is_valid_jsonrpc_message :: "json \<Rightarrow> bool" where
  "is_valid_jsonrpc_message message =
     (case message of
        JObj kvs \<Rightarrow>
          if map_of kvs ''jsonrpc'' \<noteq> Some (JStr ''2.0'') then False
          else
            let has_method = (''method'' \<in> set (map fst kvs));
                has_result = (''result'' \<in> set (map fst kvs));
                has_error = (''error'' \<in> set (map fst kvs))
            in if has_method then (if has_result \<or> has_error then False else True)
               else if \<not> (has_result \<or> has_error) then False
               else if has_result \<and> has_error then False
               else True
      | _ \<Rightarrow> False)"

text \<open>\<^verbatim>\<open>MCPProxy._is_valid_jsonrpc_response\<close> (lines 1134-1157).\<close>

definition is_valid_jsonrpc_response :: "json \<Rightarrow> bool" where
  "is_valid_jsonrpc_response message =
     (case message of
        JObj kvs \<Rightarrow>
          if map_of kvs ''jsonrpc'' \<noteq> Some (JStr ''2.0'') then False
          else if ''id'' \<notin> set (map fst kvs) then False
          else
            let has_result = (''result'' \<in> set (map fst kvs));
                has_error = (''error'' \<in> set (map fst kvs))
            in if \<not> (has_result \<or> has_error) then False
               else if has_result \<and> has_error then False
               else True
      | _ \<Rightarrow> False)"

section \<open>python\_mcp.py: the in-process backend\<close>

text \<open>
  \<^verbatim>\<open>MCPTool\<close> and \<^verbatim>\<open>BaseMCP\<close>. The class \<^verbatim>\<open>BaseMCP\<close> ends with \<^verbatim>\<open>get_tools\<close>: the module-level
  decorator \<^verbatim>\<open>expose_tool\<close> (line 255) follows it, and the definitions of \<^verbatim>\<open>call_tool\<close>
  (line 260) and \<^verbatim>\<open>get_server_info\<close> (line 290) stand, indented, after the \<^verbatim>\<open>return func\<close> of
  \<^verbatim>\<open>expose_tool\<close>. They are local to that function and never reached, so an instance has
  an attribute \<^verbatim>\<open>call_tool\<close> or \<^verbatim>\<open>get_server_info\<close> only when its own subclass defines one:
  the fields \<open>own_call_tool\<close> and \<open>own_get_server_info\<close>. \<open>own_call_tool\<close> gives \<^verbatim>\<open>str()\<close> of
  what the subclass's method returns.
\<close>

record MCPTool =
  tool_name :: string
  description :: string
  parameters :: json
  tool_function :: "json \<Rightarrow> exn + json"

record BaseMCP =
  mcp_name :: string
  class_name :: string
  tools :: "(string \<times> MCPTool) list"
  own_call_tool :: "(json \<Rightarrow> json \<Rightarrow> exn + string) option"
  own_get_server_info :: "(exn + json) option"

text \<open>\<^verbatim>\<open>BaseMCP.get_tools\<close> (lines 241-252).\<close>

definition get_tools :: "BaseMCP \<Rightarrow> json list" where
  "get_tools mcp =
     map (\<lambda>tool. JObj [(''name'', JStr (tool_name tool)),
                       (''description'', JStr (description tool)),
                       (''inputSchema'', parameters tool)])
         (map snd (tools mcp))"

text \<open>The attribute lookups \<^verbatim>\<open>self.mcp.call_tool(...)\<close> and \<^verbatim>\<open>self.mcp.get_server_info()\<close>.\<close>

definition mcp_call_tool :: "BaseMCP \<Rightarrow> json \<Rightarrow> json \<Rightarrow> exn + string" where
  "mcp_call_tool mcp tn arguments =
     (case own_call_tool mcp of
        None \<Rightarrow> Inl (AttributeError (class_name mcp) ''call_tool'')
      | Some f \<Rightarrow> f tn arguments)"

definition mcp_get_server_info :: "BaseMCP \<Rightarrow> exn + json" where
  "mcp_get_server_info mcp =
     (case own_get_server_info mcp of
        None \<Rightarrow> Inl (AttributeError (class_name mcp) ''get_server_info'')
      | Some r \<Rightarrow> r)"

text \<open>\<^verbatim>\<open>PythonMCPServer._create_error_response(request_id, code, message)\<close> (lines 378-390).\<close>

definition py_create_error_response :: "json \<Rightarrow> int \<Rightarrow> string \<Rightarrow> json" where
  "py_create_error_response request_id code message =
     (if request_id = JNull then JNull
      else JObj [(''jsonrpc'', JStr ''2.0''),
                 (''id'', request_id),
                 (''error'', JObj [(''code'', JInt code), (''message'', JStr message)])])"

text \<open>\<^verbatim>\<open>PythonMCPServer._handle_initialize\<close> (lines 338-349).\<close>

definition py_handle_initialize :: "BaseMCP \<Rightarrow> json \<Rightarrow> exn + json" where
  "py_handle_initialize mcp request_id =
     and_then (mcp_get_server_info mcp)
       (\<lambda>server_info.
          Inr (JObj [(''jsonrpc'', JStr ''2.0''),
                     (''id'', request_id),
                     (''result'', JObj [(''protocolVersion'', JStr ''2024-11-05''),
                                        (''capabilities'', JObj [(''tools'', JObj [])]),
                                        (''serverInfo'', server_info)])]))"

text \<open>\<^verbatim>\<open>PythonMCPServer._handle_tools_list\<close> (lines 351-354).\<close>

definition py_handle_tools_list :: "BaseMCP \<Rightarrow> json \<Rightarrow> exn + json" where
  "py_handle_tools_list mcp request_id =
     Inr (JObj [(''jsonrpc'', JStr ''2.0''),
                (''id'', request_id),
                (''result'', JObj [(''tools'', JArr (get_tools mcp))])])"

text \<open>
  \<^verbatim>\<open>PythonMCPServer._handle_tool_call\<close> (lines 356-376). The two \<^verbatim>\<open>params.get\<close> stand before the
  \<^verbatim>\<open>try\<close>; the call of the tool, attribute lookup included, stands inside it.
\<close>

definition py_handle_tool_call :: "BaseMCP \<Rightarrow> json \<Rightarrow> json \<Rightarrow> exn + json" where
  "py_handle_tool_call mcp request_id params =
     and_then (py_get params ''name'' JNull) (\<lambda>tn.
     and_then (py_get params ''arguments'' (JObj [])) (\<lambda>arguments.
       if \<not> truthy tn then Inr (py_create_error_response request_id (-32602) ''Missing tool name'')
       else
         (case mcp_call_tool mcp tn arguments of
            Inr result \<Rightarrow>
              Inr (JObj [(''jsonrpc'', JStr ''2.0''),
                         (''id'', request_id),
                         (''result'',
                            JObj [(''content'',
                                     JArr [JObj [(''type'', JStr ''text''), (''text'', JStr result)]])])])
          | Inl e \<Rightarrow>
              Inr (py_create_error_response request_id (-32000)
                     (''Tool execution failed: '' @ exn_str e)))))"

text \<open>
  \<^verbatim>\<open>PythonMCPServer.handle_request\<close> (lines 316-336): the dispatch, inside a \<^verbatim>\<open>try\<close> whose
  handler answers with \<^verbatim>\<open>-32603\<close>; \<^verbatim>\<open>request.get("id")\<close> in the handler may raise again.
\<close>

definition handle_request_body :: "BaseMCP \<Rightarrow> json \<Rightarrow> exn + json" where
  "handle_request_body mcp request =
     and_then (py_get request ''method'' JNull) (\<lambda>method.
     and_then (py_get request ''params'' (JObj [])) (\<lambda>params.
     and_then (py_get request ''id'' JNull) (\<lambda>request_id.
       if method = JStr ''initialize'' then py_handle_initialize mcp request_id
       else if method = JStr ''tools/list'' then py_handle_tools_list mcp request_id
       else if method = JStr ''tools/call'' then py_handle_tool_call mcp request_id params
       else Inr (py_create_error_response request_id (-32601)
                   (''Unknown method: '' @ py_str method)))))"

definition handle_request :: "BaseMCP \<Rightarrow> json \<Rightarrow> exn + json" where
  "handle_request mcp request =
     (case handle_request_body mcp request of
        Inr response \<Rightarrow> Inr response
      | Inl e \<Rightarrow>
          and_then (py_get request ''id'' JNull)
            (\<lambda>request_id. Inr (py_create_error_response request_id (-32603) (exn_str e))))"

section \<open>proxy.py: configuration, registry and access filter\<close>

text \<open>
  A before-hook is called as \<^verbatim>\<open>interceptor(request, server_name, tool_name)\<close>, an after-hook
  as \<^verbatim>\<open>interceptor(request, response, server_name, tool_name)\<close>; each returns a value
  (\<^verbatim>\<open>None\<close> blocks) or raises. \<^verbatim>\<open>__post_init__\<close> replaces a missing hook dict by \<^verbatim>\<open>{}\<close>, so
  both dicts always exist.
\<close>

type_synonym before_hook = "json \<Rightarrow> string \<Rightarrow> json \<Rightarrow> exn + json"
type_synonym after_hook = "json \<Rightarrow> json \<Rightarrow> string \<Rightarrow> json \<Rightarrow> exn + json"

record MCPServerConfig =
  name :: string
  command :: "string option"
  args :: "string list"
  env :: "string \<rightharpoonup> string"
  cwd :: string
  whitelist :: "string list option"
  blacklist :: "string list option"
  auto_start :: bool
  python_mcp :: "BaseMCP option"
  inherit_env :: bool
  intercept_before :: "(string \<times> before_hook) list"
  intercept_after :: "(string \<times> after_hook) list"

text \<open>
  An external backend is a \<^verbatim>\<open>subprocess.Popen\<close>. For the message written to its stdin,
  \<open>stdin_write\<close> says whether \<^verbatim>\<open>write\<close>/\<^verbatim>\<open>flush\<close> raise, and \<open>stdout_read\<close> what the following
  \<^verbatim>\<open>select\<close> and \<^verbatim>\<open>readline\<close> find.
\<close>

datatype read_outcome =
    NotReady
  | ReadRaises exn
  | EndOfFile
  | NotJson
  | Reply json

record process =
  stdin_write :: "json \<Rightarrow> exn option"
  stdout_read :: "json \<Rightarrow> read_outcome"

record MCPProxy =
  proxy_name :: string
  servers :: "(string \<times> MCPServerConfig) list"
  active_processes :: "(string \<times> process) list"
  python_servers :: "(string \<times> BaseMCP) list"

text \<open>\<^verbatim>\<open>MCPProxy.add_server\<close> (lines 118-121): \<^verbatim>\<open>self.servers[config.name] = config\<close>.\<close>

definition add_server :: "MCPServerConfig \<Rightarrow> MCPProxy \<Rightarrow> MCPProxy" where
  "add_server config proxy = proxy\<lparr>servers := AList.update (name config) config (servers proxy)\<rparr>"

text \<open>
  \<^verbatim>\<open>MCPProxy._build_subprocess_env\<close> (lines 123-135); \<open>environ\<close> is \<^verbatim>\<open>os.environ\<close>.
\<close>

definition environ_get :: "(string \<rightharpoonup> string) \<Rightarrow> string \<Rightarrow> string \<Rightarrow> string" where
  "environ_get environ k d = (case environ k of None \<Rightarrow> d | Some v \<Rightarrow> v)"

definition build_subprocess_env ::
  "(string \<rightharpoonup> string) \<Rightarrow> MCPServerConfig \<Rightarrow> (string \<rightharpoonup> string)" where
  "build_subprocess_env environ config =
     (let base_env =
            (if inherit_env config then environ
             else [''PATH'' \<mapsto> environ_get environ ''PATH'' ''/usr/bin:/bin:/usr/sbin:/sbin'',
                   ''LANG'' \<mapsto> environ_get environ ''LANG'' ''C.UTF-8''])
      in if env config \<noteq> Map.empty then base_env ++ env config else base_env)"

text \<open>
  \<^verbatim>\<open>tool_name in config.blacklist\<close>: membership in a list of strings, by \<^verbatim>\<open>==\<close>.
  \<^verbatim>\<open>config.blacklist and ...\<close> tests the list's truth value: \<^verbatim>\<open>None\<close> and \<^verbatim>\<open>[]\<close> are false.
\<close>

definition in_names :: "json \<Rightarrow> string list \<Rightarrow> bool" where
  "in_names tn names = (case tn of JStr s \<Rightarrow> s \<in> set names | _ \<Rightarrow> False)"

definition listed :: "string list option \<Rightarrow> json \<Rightarrow> bool" where
  "listed l tn = (case l of None \<Rightarrow> False | Some names \<Rightarrow> names \<noteq> [] \<and> in_names tn names)"

definition unlisted :: "string list option \<Rightarrow> json \<Rightarrow> bool" where
  "unlisted l tn = (case l of None \<Rightarrow> False | Some names \<Rightarrow> names \<noteq> [] \<and> \<not> in_names tn names)"

text \<open>
  \<^verbatim>\<open>MCPProxy.is_tool_allowed\<close> (lines 316-335). \<open>listed (blacklist config) tn\<close> is
  \<^verbatim>\<open>config.blacklist and tool_name in config.blacklist\<close>, \<open>unlisted (whitelist config) tn\<close> is
  \<^verbatim>\<open>config.whitelist and tool_name not in config.whitelist\<close>.
\<close>

definition is_tool_allowed :: "MCPProxy \<Rightarrow> string \<Rightarrow> json \<Rightarrow> bool" where
  "is_tool_allowed proxy server_name tn =
     (case map_of (servers proxy) server_name of
        None \<Rightarrow> False
      | Some config \<Rightarrow>
          if listed (blacklist config) tn then False
          else if unlisted (whitelist config) tn then False
          else True)"

section \<open>proxy.py: interceptors, forwarding and routing\<close>

text \<open>
  The calls a test spy would see: a hook called under the key of its dict, and
  \<^verbatim>\<open>_forward_to_server\<close> called for a backend. Each function below returns its result
  together with the calls it made, in order.
\<close>

datatype event =
    BeforeHook string json
  | AfterHook string json json
  | Forward string json

type_synonym 'a logged = "(exn + 'a) \<times> event list"

definition logged_then :: "'a logged \<Rightarrow> ('a \<Rightarrow> 'b logged) \<Rightarrow> 'b logged" where
  "logged_then m f =
     (case fst m of
        Inl e \<Rightarrow> (Inl e, snd m)
      | Inr v \<Rightarrow> (fst (f v), snd m @ snd (f v)))"

definition quiet :: "exn + 'a \<Rightarrow> 'a logged" where
  "quiet r = (r, [])"

text \<open>
  \<^verbatim>\<open>tool_name in config.intercept_before\<close>: a dict lookup hashes the key, and a list or a
  dict is unhashable.
\<close>

definition hook_key :: "json \<Rightarrow> exn + string option" where
  "hook_key tn =
     (case tn of
        JStr s \<Rightarrow> Inr (Some s)
      | JArr xs \<Rightarrow> Inl (TypeError (''unhashable type: '' @ quoted ''list''))
      | JObj kvs \<Rightarrow> Inl (TypeError (''unhashable type: '' @ quoted ''dict''))
      | _ \<Rightarrow> Inr None)"

definition find_hook :: "(string \<times> 'h) list \<Rightarrow> json \<Rightarrow> exn + (string \<times> 'h) option" where
  "find_hook hooks tn =
     and_then (hook_key tn) (\<lambda>k.
       case k of
         None \<Rightarrow> Inr None
       | Some s \<Rightarrow> (case map_of hooks s of None \<Rightarrow> Inr None | Some h \<Rightarrow> Inr (Some (s, h))))"

text \<open>
  One stage of the before pipeline: the \<^verbatim>\<open>try\<close> around a hook's call. The result \<open>JNull\<close>
  is the \<^verbatim>\<open>return None\<close> of a block or of a hook that raised.
\<close>

definition run_before_hook :: "string \<times> before_hook \<Rightarrow> json \<Rightarrow> string \<Rightarrow> json \<Rightarrow> json logged" where
  "run_before_hook kh current_request server_name tn =
     (case snd kh current_request server_name tn of
        Inl e \<Rightarrow> (Inr JNull, [BeforeHook (fst kh) current_request])
      | Inr r \<Rightarrow> (Inr r, [BeforeHook (fst kh) current_request]))"

text \<open>\<^verbatim>\<open>MCPProxy._process_server_interceptors_before\<close> (lines 152-197).\<close>

definition process_server_interceptors_before ::
  "MCPProxy \<Rightarrow> json \<Rightarrow> string \<Rightarrow> json \<Rightarrow> json logged" where
  "process_server_interceptors_before proxy request server_name tn =
     (case map_of (servers proxy) server_name of
        None \<Rightarrow> quiet (Inr request)
      | Some config \<Rightarrow>
          if intercept_before config = [] then quiet (Inr request)
          else
            logged_then (quiet (find_hook (intercept_before config) tn)) (\<lambda>specific.
            logged_then
              (case specific of
                 None \<Rightarrow> quiet (Inr request)
               | Some kh \<Rightarrow> run_before_hook kh request server_name tn)
              (\<lambda>current_request.
                 if specific \<noteq> None \<and> current_request = JNull then quiet (Inr JNull)
                 else
                   (case map_of (intercept_before config) ''*'' of
                      None \<Rightarrow> quiet (Inr current_request)
                    | Some h \<Rightarrow> run_before_hook (''*'', h) current_request server_name tn))))"

definition run_after_hook ::
  "string \<times> after_hook \<Rightarrow> json \<Rightarrow> json \<Rightarrow> string \<Rightarrow> json \<Rightarrow> json logged" where
  "run_after_hook kh request current_response server_name tn =
     (case snd kh request current_response server_name tn of
        Inl e \<Rightarrow> (Inr JNull, [AfterHook (fst kh) request current_response])
      | Inr r \<Rightarrow> (Inr r, [AfterHook (fst kh) request current_response]))"

text \<open>\<^verbatim>\<open>MCPProxy._process_server_interceptors_after\<close> (lines 199-252).\<close>

definition process_server_interceptors_after ::
  "MCPProxy \<Rightarrow> json \<Rightarrow> json \<Rightarrow> string \<Rightarrow> json \<Rightarrow> json logged" where
  "process_server_interceptors_after proxy request response server_name tn =
     (case map_of (servers proxy) server_name of
        None \<Rightarrow> quiet (Inr response)
      | Some config \<Rightarrow>
          if intercept_after config = [] then quiet (Inr response)
          else
            logged_then (quiet (find_hook (intercept_after config) tn)) (\<lambda>specific.
            logged_then
              (case specific of
                 None \<Rightarrow> quiet (Inr response)
               | Some kh \<Rightarrow> run_after_hook kh request response server_name tn)
              (\<lambda>current_response.
                 if specific \<noteq> None \<and> current_response = JNull then quiet (Inr JNull)
                 else
                   (case map_of (intercept_after config) ''*'' of
                      None \<Rightarrow> quiet (Inr current_response)
                    | Some h \<Rightarrow> run_after_hook (''*'', h) request current_response server_name tn))))"

text \<open>\<^verbatim>\<open>MCPProxy._read_server_response_with_timeout\<close> (lines 1159-1183).\<close>

definition read_server_response_with_timeout :: "read_outcome \<Rightarrow> json" where
  "read_server_response_with_timeout outcome =
     (case outcome of
        NotReady \<Rightarrow> JNull
      | ReadRaises e \<Rightarrow> JNull
      | EndOfFile \<Rightarrow> JNull
      | NotJson \<Rightarrow> JNull
      | Reply response \<Rightarrow> response)"

text \<open>
  The check of a backend's response, the same statements in both branches of
  \<^verbatim>\<open>_forward_to_server\<close> (lines 1059-1075 and 1107-1122).
\<close>

definition checked_response :: "json \<Rightarrow> json \<Rightarrow> exn + json" where
  "checked_response message response =
     (if \<not> is_valid_jsonrpc_response response
      then create_error_response message (-32603) ''Internal error''
      else
        and_then (py_get message ''id'' JNull) (\<lambda>req_id.
        and_then (py_get response ''id'' JNull) (\<lambda>resp_id.
          if req_id \<noteq> JNull \<and> \<not> py_eq resp_id req_id
          then create_error_response message (-32603) ''Internal error''
          else Inr response)))"

definition forward_python_body :: "BaseMCP \<Rightarrow> json \<Rightarrow> exn + json" where
  "forward_python_body python_server message =
     (if \<not> is_valid_jsonrpc_message message
      then create_error_response message (-32600) ''Invalid Request''
      else and_then (handle_request python_server message) (checked_response message))"

definition forward_process_body :: "process \<Rightarrow> json \<Rightarrow> exn + json" where
  "forward_process_body proc message =
     (if \<not> is_valid_jsonrpc_message message
      then create_error_response message (-32600) ''Invalid Request''
      else
        (case stdin_write proc message of
           Some e \<Rightarrow> Inl e
         | None \<Rightarrow>
             (let response = read_server_response_with_timeout (stdout_read proc message)
              in if truthy response then checked_response message response
                 else create_error_response message (-32003) ''No response from server (timeout)'')))"

text \<open>
  \<^verbatim>\<open>MCPProxy._forward_to_server\<close> (lines 1039-1132). Each branch is a \<^verbatim>\<open>try\<close> whose handler
  answers with \<^verbatim>\<open>-32003\<close>; the handler's own call of \<^verbatim>\<open>_create_error_response\<close> is not
  guarded.
\<close>

definition forward_to_server :: "MCPProxy \<Rightarrow> string \<Rightarrow> json \<Rightarrow> json logged" where
  "forward_to_server proxy server_name message =
     ((case map_of (python_servers proxy) server_name of
         Some python_server \<Rightarrow>
           (case forward_python_body python_server message of
              Inr r \<Rightarrow> Inr r
            | Inl e \<Rightarrow>
                create_error_response message (-32003) (''Python server error: '' @ exn_str e))
       | None \<Rightarrow>
           (case map_of (active_processes proxy) server_name of
              None \<Rightarrow>
                create_error_response message (-32001)
                  (''Server '' @ server_name @ '' not running'')
            | Some proc \<Rightarrow>
                (case forward_process_body proc message of
                   Inr r \<Rightarrow> Inr r
                 | Inl e \<Rightarrow>
                     create_error_response message (-32003)
                       (''Server communication error: '' @ exn_str e)))),
      [Forward server_name message])"

text \<open>\<^verbatim>\<open>MCPProxy._route_tool_call_to_server\<close> (lines 993-1037).\<close>

definition route_tool_call_to_server :: "MCPProxy \<Rightarrow> json \<Rightarrow> string \<Rightarrow> json logged" where
  "route_tool_call_to_server proxy message server_name =
     logged_then (quiet (py_get message ''params'' (JObj []))) (\<lambda>params.
     logged_then (quiet (py_get params ''name'' JNull)) (\<lambda>tn.
       if \<not> truthy tn then quiet (create_error_response message (-32602) ''Missing tool name'')
       else if \<not> is_tool_allowed proxy server_name tn
       then quiet (create_error_response message (-32001)
                     (''Tool '' @ py_str tn @ '' not allowed''))
       else
         logged_then (process_server_interceptors_before proxy message server_name tn)
           (\<lambda>processed_request.
              if processed_request = JNull
              then quiet (create_error_response message (-32001)
                            ''Tool call blocked by interceptor'')
              else
                logged_then (forward_to_server proxy server_name processed_request)
                  (\<lambda>response.
                     if response = JNull
                     then quiet (create_error_response message (-32003)
                                   ''No response from server'')
                     else
                       logged_then
                         (process_server_interceptors_after proxy processed_request response
                            server_name tn)
                         (\<lambda>processed_response.
                            if processed_response = JNull
                            then quiet (create_error_response message (-32001)
                                          ''Response blocked by interceptor'')
                            else quiet (Inr processed_response))))))"

text \<open>
  \<^verbatim>\<open>x["result"]\<close> and \<^verbatim>\<open>for tool in tools\<close> on a value of any type.
\<close>

fun py_getitem :: "json \<Rightarrow> string \<Rightarrow> exn + json" where
  "py_getitem (JObj kvs) k = (case map_of kvs k of None \<Rightarrow> Inl (KeyError k) | Some v \<Rightarrow> Inr v)"
| "py_getitem (JArr xs) k = Inl (TypeError ''list indices must be integers or slices, not str'')"
| "py_getitem (JStr s) k = Inl (TypeError ''string indices must be integers, not str'')"
| "py_getitem v k = Inl (TypeError (quoted (py_type_name v) @ '' object is not subscriptable''))"

fun py_iter :: "json \<Rightarrow> exn + json list" where
  "py_iter (JArr xs) = Inr xs"
| "py_iter (JObj kvs) = Inr (map (\<lambda>kv. JStr (fst kv)) kvs)"
| "py_iter (JStr s) = Inr (map (\<lambda>c. JStr [c]) s)"
| "py_iter v = Inl (TypeError (quoted (py_type_name v) @ '' object is not iterable''))"

text \<open>The filter loop of \<^verbatim>\<open>_handle_tools_list_for_server\<close> (lines 970-978).\<close>

fun filter_tools :: "MCPProxy \<Rightarrow> string \<Rightarrow> json list \<Rightarrow> exn + json list" where
  "filter_tools proxy server_name [] = Inr []"
| "filter_tools proxy server_name (tool # rest) =
     and_then (py_get tool ''name'' JNull) (\<lambda>tn.
     and_then (filter_tools proxy server_name rest) (\<lambda>filtered_tools.
       Inr (if truthy tn \<and> is_tool_allowed proxy server_name tn
            then tool # filtered_tools else filtered_tools)))"

definition tools_response :: "json \<Rightarrow> json list \<Rightarrow> exn + json" where
  "tools_response message tool_list =
     and_then (py_get message ''id'' JNull) (\<lambda>message_id.
       Inr (JObj [(''jsonrpc'', JStr ''2.0''),
                  (''id'', message_id),
                  (''result'', JObj [(''tools'', JArr tool_list)])]))"

text \<open>\<^verbatim>\<open>MCPProxy._handle_tools_list_for_server\<close> (lines 960-991).\<close>

definition handle_tools_list_for_server :: "MCPProxy \<Rightarrow> json \<Rightarrow> string \<Rightarrow> json logged" where
  "handle_tools_list_for_server proxy message server_name =
     logged_then (forward_to_server proxy server_name message) (\<lambda>server_response.
       quiet
         (and_then (if truthy server_response then py_in ''result'' server_response else Inr False)
            (\<lambda>has_result.
               if has_result then
                 and_then (py_getitem server_response ''result'') (\<lambda>result.
                 and_then (py_get result ''tools'' (JArr [])) (\<lambda>tools_value.
                 and_then (py_iter tools_value) (\<lambda>tool_list.
                 and_then (filter_tools proxy server_name tool_list) (\<lambda>filtered_tools.
                   tools_response message filtered_tools))))
               else tools_response message [])))"

text \<open>\<^verbatim>\<open>MCPProxy._handle_initialize_for_server\<close> (lines 905-925).\<close>

definition handle_initialize_for_server :: "MCPProxy \<Rightarrow> json \<Rightarrow> string \<Rightarrow> json logged" where
  "handle_initialize_for_server proxy message server_name =
     logged_then (forward_to_server proxy server_name message) (\<lambda>server_response.
       quiet
         (and_then (if truthy server_response then py_in ''result'' server_response else Inr False)
            (\<lambda>has_result.
               if has_result then Inr server_response
               else
                 and_then (py_get message ''id'' JNull) (\<lambda>message_id.
                   Inr (JObj [(''jsonrpc'', JStr ''2.0''),
                              (''id'', message_id),
                              (''result'',
                                 JObj [(''protocolVersion'', JStr ''2024-11-05''),
                                       (''capabilities'', JObj [(''tools'', JObj [])]),
                                       (''serverInfo'',
                                          JObj [(''name'', JStr server_name),
                                                (''version'', JStr ''1.0.0'')])])])))))"

text \<open>\<^verbatim>\<open>MCPProxy._log_received_message\<close> (lines 137-150): what it can raise.\<close>

definition log_received_message :: "json \<Rightarrow> exn + unit" where
  "log_received_message raw_message =
     and_then (py_get raw_message ''method'' JNull) (\<lambda>method.
     and_then (if is_dict raw_message then py_get raw_message ''params'' (JObj []) else Inr (JObj []))
       (\<lambda>params.
          if method = JStr ''tools/call''
          then and_then (py_get params ''name'' JNull) (\<lambda>tn. Inr ())
          else Inr ()))"

text \<open>
  The body of the message loop of \<^verbatim>\<open>MCPProxy._handle_client_for_server\<close> for one line
  already parsed by \<^verbatim>\<open>json.loads\<close> (lines 690-711), and the lines it writes to the client
  (lines 713-723).
\<close>

definition dispatch_for_server :: "MCPProxy \<Rightarrow> string \<Rightarrow> json \<Rightarrow> json logged" where
  "dispatch_for_server proxy server_name message =
     logged_then (quiet (log_received_message message)) (\<lambda>u.
     logged_then (quiet (py_get message ''method'' JNull)) (\<lambda>method.
       if method = JStr ''tools/list'' then handle_tools_list_for_server proxy message server_name
       else if method = JStr ''tools/call'' then route_tool_call_to_server proxy message server_name
       else if method = JStr ''initialize'' then handle_initialize_for_server proxy message server_name
       else forward_to_server proxy server_name message))"

definition written_for_server :: "MCPProxy \<Rightarrow> string \<Rightarrow> json \<Rightarrow> json list" where
  "written_for_server proxy server_name message =
     client_output (fst (dispatch_for_server proxy server_name message))"

section \<open>proxy.py: the connection semaphore\<close>

text \<open>
  \<^verbatim>\<open>threading.BoundedSemaphore(n)\<close>: \<^verbatim>\<open>acquire(blocking=False)\<close> takes a slot if one is left,
  \<^verbatim>\<open>release()\<close> raises \<^verbatim>\<open>ValueError\<close> when the counter is at its initial value.
\<close>

record semaphore =
  sem_value :: nat
  sem_initial :: nat

definition BoundedSemaphore :: "nat \<Rightarrow> semaphore" where
  "BoundedSemaphore n = \<lparr>sem_value = n, sem_initial = n\<rparr>"

definition acquire_nonblocking :: "semaphore \<Rightarrow> bool \<times> semaphore" where
  "acquire_nonblocking s =
     (if sem_value s = 0 then (False, s) else (True, s\<lparr>sem_value := sem_value s - 1\<rparr>))"

definition release :: "semaphore \<Rightarrow> exn + semaphore" where
  "release s =
     (if sem_value s \<ge> sem_initial s then Inl (ValueError ''Semaphore released too many times'')
      else Inr (s\<lparr>sem_value := sem_value s + 1\<rparr>))"

text \<open>
  \<^verbatim>\<open>MCPProxy._handle_client_for_server\<close> (lines 654-753) as the fabric sees it: the semaphore
  and the number of handlers that are inside their message loop. A handler starts with
  the non-blocking acquire (lines 657-662); refused, it closes the socket and returns,
  through the \<^verbatim>\<open>finally\<close> block. A handler whose loop ends leaves through the same
  \<^verbatim>\<open>finally\<close> block (lines 744-753), which releases the semaphore and passes over a
  \<^verbatim>\<open>ValueError\<close>.
\<close>

record fabric =
  connection_semaphore :: semaphore
  in_loop :: nat

definition new_fabric :: "nat \<Rightarrow> fabric" where
  "new_fabric max_connections = \<lparr>connection_semaphore = BoundedSemaphore max_connections, in_loop = 0\<rparr>"

definition handler_finally :: "fabric \<Rightarrow> fabric" where
  "handler_finally f =
     (case release (connection_semaphore f) of
        Inl e \<Rightarrow> f
      | Inr s \<Rightarrow> f\<lparr>connection_semaphore := s\<rparr>)"

definition handler_start :: "fabric \<Rightarrow> bool \<times> fabric" where
  "handler_start f =
     (case acquire_nonblocking (connection_semaphore f) of
        (False, s) \<Rightarrow> (False, handler_finally (f\<lparr>connection_semaphore := s\<rparr>))
      | (True, s) \<Rightarrow> (True, f\<lparr>connection_semaphore := s, in_loop := in_loop f + 1\<rparr>))"

definition handler_end :: "fabric \<Rightarrow> fabric" where
  "handler_end f = handler_finally (f\<lparr>in_loop := in_loop f - 1\<rparr>)"

datatype connection_event = Connect | Disconnect

fun fabric_step :: "fabric \<Rightarrow> connection_event \<Rightarrow> fabric" where
  "fabric_step f Connect = snd (handler_start f)"
| "fabric_step f Disconnect = (if in_loop f = 0 then f else handler_end f)"

definition fabric_run :: "fabric \<Rightarrow> connection_event list \<Rightarrow> fabric" where
  "fabric_run f evs = foldl fabric_step f evs"

section \<open>Starting backends, and the inputs of the scenarios\<close>

text \<open>
  \<^verbatim>\<open>MCPServerConfig(name=..., command=...)\<close> with the dataclass defaults (lines 35-55, and
  \<^verbatim>\<open>__post_init__\<close> for the two hook dicts).
\<close>

definition external_config :: "string \<Rightarrow> string \<Rightarrow> MCPServerConfig" where
  "external_config n c =
     \<lparr>name = n, command = Some c, args = [], env = Map.empty, cwd = ''.'',
      whitelist = None, blacklist = None, auto_start = True, python_mcp = None,
      inherit_env = False, intercept_before = [], intercept_after = []\<rparr>"

text \<open>The config that \<^verbatim>\<open>MCPProxy.add_python_server\<close> builds (lines 268-274).\<close>

definition python_config ::
  "BaseMCP \<Rightarrow> string list option \<Rightarrow> string list option \<Rightarrow> MCPServerConfig" where
  "python_config mcp_instance wl bl =
     \<lparr>name = mcp_name mcp_instance, command = None, args = [], env = Map.empty, cwd = ''.'',
      whitelist = wl, blacklist = bl, auto_start = True, python_mcp = Some mcp_instance,
      inherit_env = False, intercept_before = [], intercept_after = []\<rparr>"

definition add_python_server ::
  "BaseMCP \<Rightarrow> string list option \<Rightarrow> string list option \<Rightarrow> MCPProxy \<Rightarrow> MCPProxy" where
  "add_python_server mcp_instance wl bl proxy = add_server (python_config mcp_instance wl bl) proxy"

text \<open>\<^verbatim>\<open>MCPProxy.__init__\<close>: the empty registry.\<close>

definition new_proxy :: "string \<Rightarrow> MCPProxy" where
  "new_proxy n = \<lparr>proxy_name = n, servers = [], active_processes = [], python_servers = []\<rparr>"

text \<open>
  The Python branch of \<^verbatim>\<open>MCPProxy.start_server\<close> (lines 339-362):
  \<^verbatim>\<open>self.python_servers[server_name] = PythonMCPServer(config.python_mcp)\<close>, unless the name is
  unknown or the server already runs. The \<^verbatim>\<open>PythonMCPServer\<close> wrapper holds the instance
  and nothing else. An external backend's process is put into \<open>active_processes\<close> by
  \<open>process_started\<close>, when \<^verbatim>\<open>Popen\<close> succeeded and the child is alive after one second
  (lines 382-398).
\<close>

definition start_python_server :: "string \<Rightarrow> MCPProxy \<Rightarrow> MCPProxy" where
  "start_python_server server_name proxy =
     (case map_of (servers proxy) server_name of
        None \<Rightarrow> proxy
      | Some config \<Rightarrow>
          (case python_mcp config of
             None \<Rightarrow> proxy
           | Some mcp_instance \<Rightarrow>
               if server_name \<in> set (map fst (python_servers proxy)) then proxy
               else proxy\<lparr>python_servers :=
                            AList.update server_name mcp_instance (python_servers proxy)\<rparr>))"

definition process_started :: "string \<Rightarrow> process \<Rightarrow> MCPProxy \<Rightarrow> MCPProxy" where
  "process_started server_name proc proxy =
     proxy\<lparr>active_processes := AList.update server_name proc (active_processes proxy)\<rparr>"

text \<open>
  Scenario 1 of the specification: a \<^verbatim>\<open>BaseMCP\<close> subclass \<^verbatim>\<open>EchoMCP\<close> named \<^verbatim>\<open>echo\<close>, whose
  one method \<^verbatim>\<open>say(self, msg: str) -> str\<close>, decorated with \<^verbatim>\<open>@expose_tool\<close>, returns
  \<^verbatim>\<open>msg\<close>. The subclass defines neither \<^verbatim>\<open>call_tool\<close> nor \<^verbatim>\<open>get_server_info\<close>.
\<close>

definition say :: "json \<Rightarrow> exn + json" where
  "say arguments =
     (case arguments of
        JObj kvs \<Rightarrow>
          (case map_of kvs ''msg'' of
             Some v \<Rightarrow> Inr v
           | None \<Rightarrow> Inl (TypeError ''say() missing 1 required positional argument: msg''))
      | _ \<Rightarrow> Inl (AttributeError (py_type_name arguments) ''items''))"

definition echo_mcp :: BaseMCP where
  "echo_mcp =
     \<lparr>mcp_name = ''echo'', class_name = ''EchoMCP'',
      tools = [(''say'',
                \<lparr>tool_name = ''say'', description = ''Execute say'',
                 parameters = JObj [(''type'', JStr ''object''),
                                    (''properties'', JObj [(''msg'', JObj [(''type'', JStr ''string'')])]),
                                    (''required'', JArr [JStr ''msg''])],
                 tool_function = say\<rparr>)],
      own_call_tool = None, own_get_server_info = None\<rparr>"

definition echo_proxy :: MCPProxy where
  "echo_proxy = start_python_server ''echo'' (add_python_server echo_mcp None None (new_proxy ''mcp-proxy''))"

definition echo_fields :: "(string \<times> json) list" where
  "echo_fields =
     [(''jsonrpc'', JStr ''2.0''), (''id'', JInt 7), (''method'', JStr ''tools/call''),
      (''params'', JObj [(''name'', JStr ''say''),
                         (''arguments'', JObj [(''msg'', JStr ''hi'')])])]"

definition echo_request :: json where
  "echo_request = JObj echo_fields"


definition error_object :: "json \<Rightarrow> int \<Rightarrow> string \<Rightarrow> json" where
  "error_object i code text =
     JObj [(''jsonrpc'', JStr ''2.0''), (''id'', i),
           (''error'', JObj [(''code'', JInt code), (''message'', JStr text)])]"


definition named :: "json \<Rightarrow> json" where
  "named tool = (case py_get tool ''name'' JNull of Inl e \<Rightarrow> JNull | Inr v \<Rightarrow> v)"

text \<open>
  An external backend \<^verbatim>\<open>utility\<close> whose child accepts every write and whose stdout shows
  \<open>outcome\<close>; its whitelist is \<open>wl\<close> (scenario 3 has \<^verbatim>\<open>["get_time"]\<close>).
\<close>

definition scripted_process :: "read_outcome \<Rightarrow> process" where
  "scripted_process outcome = \<lparr>stdin_write = (\<lambda>m. None), stdout_read = (\<lambda>m. outcome)\<rparr>"

definition utility_proxy :: "string list option \<Rightarrow> read_outcome \<Rightarrow> MCPProxy" where
  "utility_proxy wl outcome =
     process_started ''utility'' (scripted_process outcome)
       (add_server ((external_config ''utility'' ''utility-mcp'')\<lparr>whitelist := wl\<rparr>)
          (new_proxy ''mcp-proxy''))"

definition tools_reply :: "json list \<Rightarrow> json" where
  "tools_reply ts =
     JObj [(''jsonrpc'', JStr ''2.0''), (''id'', JInt 2), (''result'', JObj [(''tools'', JArr ts)])]"

definition tool_entry :: "string \<Rightarrow> json" where
  "tool_entry n = JObj [(''name'', JStr n)]"



definition tools_list_fields :: "(string \<times> json) list" where
  "tools_list_fields = [(''jsonrpc'', JStr ''2.0''), (''id'', JInt 2), (''method'', JStr ''tools/list'')]"

text \<open>
  Scenario 4: a backend \<^verbatim>\<open>browser\<close> with a before-hook on \<^verbatim>\<open>navigate\<close> that blocks a url
  containing \<^verbatim>\<open>malicious\<close> and otherwise marks the request as checked; a wildcard
  before-hook that marks every request as audited, and one that blocks every request. The
  backend's process is silent.
\<close>

definition guard_url :: before_hook where
  "guard_url request server_name tn =
     and_then (py_get request ''params'' (JObj [])) (\<lambda>params.
     and_then (py_get params ''arguments'' (JObj [])) (\<lambda>arguments.
     and_then (py_get arguments ''url'' (JStr [])) (\<lambda>url.
       case url of
         JStr u \<Rightarrow>
           if sublist ''malicious'' u then Inr JNull
           else (case request of
                   JObj kvs \<Rightarrow> Inr (JObj (kvs @ [(''checked'', JBool True)]))
                 | _ \<Rightarrow> Inr request)
       | _ \<Rightarrow> Inl (TypeError ''url must be a string''))))"

definition stamp_all :: before_hook where
  "stamp_all request server_name tn =
     (case request of
        JObj kvs \<Rightarrow> Inr (JObj (kvs @ [(''audited'', JBool True)]))
      | _ \<Rightarrow> Inr request)"

definition block_all :: before_hook where
  "block_all request server_name tn = Inr JNull"

definition browser_proxy :: "(string \<times> before_hook) list \<Rightarrow> MCPProxy" where
  "browser_proxy hooks =
     process_started ''browser'' (scripted_process NotReady)
       (add_server ((external_config ''browser'' ''browser-mcp'')\<lparr>intercept_before := hooks\<rparr>)
          (new_proxy ''mcp-proxy''))"

definition navigate_params :: "string \<Rightarrow> (string \<times> json) list" where
  "navigate_params u = [(''name'', JStr ''navigate''), (''arguments'', JObj [(''url'', JStr u)])]"

definition navigate_fields :: "string \<Rightarrow> (string \<times> json) list" where
  "navigate_fields u =
     [(''jsonrpc'', JStr ''2.0''), (''id'', JInt 4), (''method'', JStr ''tools/call''),
      (''params'', JObj (navigate_params u))]"

text \<open>
  Scenario 2: a backend \<^verbatim>\<open>math\<close> with \<^verbatim>\<open>blacklist=["divide"]\<close>, and a call of \<^verbatim>\<open>divide\<close>
  with id 1.
\<close>

definition math_proxy :: MCPProxy where
  "math_proxy =
     process_started ''math'' (scripted_process NotReady)
       (add_server ((external_config ''math'' ''math-mcp'')\<lparr>blacklist := Some [''divide'']\<rparr>)
          (new_proxy ''mcp-proxy''))"

definition divide_fields :: "(string \<times> json) list" where
  "divide_fields =
     [(''jsonrpc'', JStr ''2.0''), (''id'', JInt 1), (''method'', JStr ''tools/call''),
      (''params'', JObj [(''name'', JStr ''divide'')])]"

text \<open>A parent environment without \<^verbatim>\<open>LANG\<close>, and a backend with an explicit \<^verbatim>\<open>env\<close>.\<close>

definition parent_environ :: "string \<rightharpoonup> string" where
  "parent_environ = [''PATH'' \<mapsto> ''/opt/bin'', ''HOME'' \<mapsto> ''/root'']"

definition env_config :: "bool \<Rightarrow> MCPServerConfig" where
  "env_config inherit =
     (external_config ''utility'' ''utility-mcp'')
       \<lparr>env := [''HOME'' \<mapsto> ''/srv'', ''TOKEN'' \<mapsto> ''t''], inherit_env := inherit\<rparr>"








section \<open>Basic facts\<close>


lemma create_error_response_has_id:
  "map_of kvs ''id'' = Some i \<Longrightarrow> i \<noteq> JNull \<Longrightarrow>
   create_error_response (JObj kvs) code text = Inr (error_object i code text)"
  by (auto simp: create_error_response_def and_then_def error_object_def)

lemma create_error_response_dict:
  "create_error_response (JObj kvs) code text =
     Inr (case map_of kvs ''id'' of
            None \<Rightarrow> JNull
          | Some i \<Rightarrow> if i = JNull then JNull else error_object i code text)"
  by (cases kvs)
     (auto simp: create_error_response_def and_then_def error_object_def split: option.splits)

lemma error_object_no_result: "py_in ''result'' (error_object i code text) = Inr False"
  by (simp add: error_object_def)

lemma forward_to_server_log: "snd (forward_to_server proxy sn m) = [Forward sn m]"
  by (simp add: forward_to_server_def)

lemma logged_then_events: "fst m = Inr v \<Longrightarrow> snd (logged_then m f) = snd m @ snd (f v)"
  by (simp add: logged_then_def)

lemma logged_then_forward_prefix:
  "\<exists>rest. snd (logged_then (forward_to_server proxy sn m) f) = Forward sn m # rest"
  by (cases "fst (forward_to_server proxy sn m)")
     (simp_all add: logged_then_def forward_to_server_log)

lemma update_fresh: "k \<notin> fst ` set al \<Longrightarrow> AList.update k v al = al @ [(k, v)]"
  by (induction al) auto

lemma map_of_key: "map_of kvs k = Some v \<Longrightarrow> k \<in> fst ` set kvs"
  by (auto dest: map_of_SomeD intro: rev_image_eqI)

text \<open>Which handler the message loop calls, and that a request with an id is always answered.\<close>

lemma dispatch_tools_call:
  assumes "map_of kvs ''method'' = Some (JStr ''tools/call'')"
      and "py_get (JObj kvs) ''params'' (JObj []) = Inr (JObj ps)"
  shows "dispatch_for_server proxy sn (JObj kvs) = route_tool_call_to_server proxy (JObj kvs) sn"
  using assms
  by (simp add: dispatch_for_server_def log_received_message_def and_then_def logged_then_def
        quiet_def)





lemma error_object_truthy: "truthy (error_object i code text)"
  by (simp add: error_object_def)



section \<open>Claim C1: the echo round trip\<close>

text \<open>
  Whenever the instance's class does not define \<^verbatim>\<open>call_tool\<close> itself, a \<^verbatim>\<open>tools/call\<close> with a
  tool name ends in the \<^verbatim>\<open>except\<close> branch of \<^verbatim>\<open>_handle_tool_call\<close>: the registered function
  is never called.
\<close>

lemma tool_call_without_call_tool:
  assumes "own_call_tool mcp = None" and "map_of ps ''name'' = Some tn" and "truthy tn"
  shows "py_handle_tool_call mcp request_id (JObj ps) =
           Inr (py_create_error_response request_id (-32000)
                  (''Tool execution failed: '' @
                   exn_str (AttributeError (class_name mcp) ''call_tool'')))"
  using assms by (simp add: py_handle_tool_call_def and_then_def mcp_call_tool_def)

text \<open>
  Claim C1. A \<^verbatim>\<open>tools/call\<close> request with an id, sent to a running embedded backend for a
  registered tool, should invoke the tool and come back as a response with the request's
  id whose result wraps the returned value as a content list: for the echo backend,
  \<^verbatim>\<open>say\<close> with \<^verbatim>\<open>{"msg":"hi"}\<close> and id 7 should give the text \<^verbatim>\<open>hi\<close>. The code answers the
  request of scenario 1 with the error \<^verbatim>\<open>-32000\<close> instead: \<^verbatim>\<open>self.mcp.call_tool\<close> raises
  \<^verbatim>\<open>AttributeError\<close>, because \<^verbatim>\<open>call_tool\<close> is defined inside \<^verbatim>\<open>expose_tool\<close>, after its
  \<^verbatim>\<open>return\<close>, and not in \<^verbatim>\<open>BaseMCP\<close>.
\<close>

theorem echo_round_trip_gets_error:
  "written_for_server echo_proxy ''echo'' echo_request =
     [error_object (JInt 7) (-32000)
        (''Tool execution failed: '' @ quoted ''EchoMCP'' @
         '' object has no attribute '' @ quoted ''call_tool'')]"
  by code_simp

section \<open>Claim C2: notifications on a backend's endpoint\<close>

text \<open>
  Claim C2. A well-formed notification (no \<^verbatim>\<open>id\<close>), whatever its method, should make the
  per-connection handler write nothing. The code writes a line for the notifications
  \<^verbatim>\<open>tools/list\<close> and \<^verbatim>\<open>initialize\<close>: their handlers build a response with \<^verbatim>\<open>"id": null\<close>
  without looking for an id, and the loop writes every non-empty dict.
\<close>

theorem notification_tools_list_is_answered:
  "written_for_server echo_proxy ''echo''
     (JObj [(''jsonrpc'', JStr ''2.0''), (''method'', JStr ''tools/list'')]) =
     [JObj [(''jsonrpc'', JStr ''2.0''), (''id'', JNull),
            (''result'', JObj [(''tools'', JArr (get_tools echo_mcp))])]]
   \<and> written_for_server echo_proxy ''echo''
     (JObj [(''jsonrpc'', JStr ''2.0''), (''method'', JStr ''initialize'')]) =
     [JObj [(''jsonrpc'', JStr ''2.0''), (''id'', JNull),
            (''result'', JObj [(''protocolVersion'', JStr ''2024-11-05''),
                               (''capabilities'', JObj [(''tools'', JObj [])]),
                               (''serverInfo'', JObj [(''name'', JStr ''echo''),
                                                      (''version'', JStr ''1.0.0'')])])]]"
  by code_simp

section \<open>Claim C3: the connection bound\<close>

text \<open>
  Claim C3. With the semaphore sized to \<open>N\<close>, at most \<open>N\<close> connections should hold a handler
  at any instant, and a refused connection should leave the number of free slots
  unchanged. With \<open>N = 1\<close>: the first connection takes the only slot; the second is refused
  before anything is read, but its \<^verbatim>\<open>finally\<close> block releases a slot it never acquired, so
  the count goes from 0 to 1; the third connection is then accepted while the first is
  still open, and two handlers are in their message loops.
\<close>

theorem refused_connection_frees_a_slot:
  "fst (handler_start (fabric_run (new_fabric 1) [Connect])) = False
   \<and> sem_value (connection_semaphore (fabric_run (new_fabric 1) [Connect])) = 0
   \<and> sem_value (connection_semaphore (fabric_run (new_fabric 1) [Connect, Connect])) = 1
   \<and> in_loop (fabric_run (new_fabric 1) [Connect, Connect]) = 1
   \<and> in_loop (fabric_run (new_fabric 1) [Connect, Connect, Connect]) = 2"
  by code_simp

section \<open>Claim C4: registering a name twice\<close>

text \<open>
  Claim C4, as amended. \<^verbatim>\<open>add_server\<close> raises no error and has no check for a name already
  registered: the registry afterwards maps the config's name to the new config and every
  other name as before. A name already registered keeps its place in the registry's
  order; a new name is appended.
\<close>

theorem add_server_replaces_duplicate:
  "map_of (servers (add_server config proxy)) = (map_of (servers proxy))(name config \<mapsto> config)
   \<and> (name config \<in> fst ` set (servers proxy) \<longrightarrow>
        map fst (servers (add_server config proxy)) = map fst (servers proxy))
   \<and> (name config \<notin> fst ` set (servers proxy) \<longrightarrow>
        servers (add_server config proxy) = servers proxy @ [(name config, config)])"
  by (simp add: add_server_def update_conv' update_keys update_fresh)

theorem add_server_replaces_duplicate_witness:
  "map_of (servers (add_server (external_config ''math'' ''new-math'')
                      (add_server (external_config ''math'' ''old-math'') (new_proxy ''mcp-proxy''))))
     ''math'' = Some (external_config ''math'' ''new-math'')
   \<and> map fst (servers (add_server (external_config ''math'' ''new-math'')
                      (add_server (external_config ''math'' ''old-math'') (new_proxy ''mcp-proxy''))))
     = [''math'']
   \<and> servers (add_server (external_config ''math'' ''old-math'') (new_proxy ''mcp-proxy''))
     = [(''math'', external_config ''math'' ''old-math'')]"
proof -
  let ?old = "external_config ''math'' ''old-math''"
  let ?new = "external_config ''math'' ''new-math''"
  have names: "name ?old = ''math''" "name ?new = ''math''"
    by (simp_all add: external_config_def)
  have fresh: "name ?old \<notin> fst ` set (servers (new_proxy ''mcp-proxy''))"
    by (simp add: new_proxy_def)
  have first: "servers (add_server ?old (new_proxy ''mcp-proxy'')) = [(''math'', ?old)]"
    using add_server_replaces_duplicate[of ?old "new_proxy ''mcp-proxy''"] fresh
    by (simp add: new_proxy_def names)
  have known: "name ?new \<in> fst ` set (servers (add_server ?old (new_proxy ''mcp-proxy'')))"
    by (simp add: first names)
  show ?thesis
    using add_server_replaces_duplicate[of ?new "add_server ?old (new_proxy ''mcp-proxy'')"]
      known first
    by (simp add: names)
qed

text \<open>
  The claim as stated fails: registering \<^verbatim>\<open>math\<close> a second time, with another command,
  changes the command registered under \<^verbatim>\<open>math\<close>.
\<close>

theorem add_server_duplicate_counterexample:
  "map_option command
     (map_of (servers (add_server (external_config ''math'' ''old-math'') (new_proxy ''mcp-proxy'')))
        ''math'') = Some (Some ''old-math'')
   \<and> map_option command
     (map_of (servers (add_server (external_config ''math'' ''new-math'')
                         (add_server (external_config ''math'' ''old-math'')
                            (new_proxy ''mcp-proxy''))))
        ''math'') = Some (Some ''new-math'')"
  by (simp add: add_server_def new_proxy_def external_config_def)

section \<open>Claim C5: the access filter\<close>

lemma is_tool_allowed_decision:
  "is_tool_allowed proxy sn tn =
     (case map_of (servers proxy) sn of
        None \<Rightarrow> False
      | Some config \<Rightarrow>
          \<not> (case blacklist config of None \<Rightarrow> False | Some bl \<Rightarrow> in_names tn bl) \<and>
          (case whitelist config of None \<Rightarrow> True | Some wl \<Rightarrow> wl = [] \<or> in_names tn wl))"
  by (auto simp: is_tool_allowed_def listed_def unlisted_def in_names_def
        split: option.splits json.splits)

lemma route_blacklisted:
  assumes "map_of (servers proxy) sn = Some config" and "blacklist config = Some bl"
      and "t \<in> set bl"
      and "map_of kvs ''params'' = Some (JObj ps)" and "map_of ps ''name'' = Some (JStr t)"
  shows "route_tool_call_to_server proxy (JObj kvs) sn =
           (create_error_response (JObj kvs) (if t = [] then -32602 else -32001)
              (if t = [] then ''Missing tool name'' else ''Tool '' @ t @ '' not allowed''), [])"
  using assms
  by (auto simp: route_tool_call_to_server_def logged_then_def quiet_def is_tool_allowed_def
        listed_def in_names_def py_str_def)

text \<open>
  Claim C5, as amended. For a registered backend the decision is: deny if the blacklist
  contains the tool; otherwise deny if the whitelist is set, is not empty and does not
  contain the tool; otherwise allow. An empty whitelist restricts nothing, like an absent
  one. (An unregistered backend name is denied.) A \<^verbatim>\<open>tools/call\<close> for a blacklisted tool
  calls neither a hook nor the backend; the router returns, and the client is sent, the
  error \<^verbatim>\<open>-32001\<close> with the request's id (\<^verbatim>\<open>-32602\<close> when the blacklisted name is the empty
  string), or nothing at all when the message has no id.
\<close>

theorem access_decision:
  "is_tool_allowed proxy sn tn =
     (case map_of (servers proxy) sn of
        None \<Rightarrow> False
      | Some config \<Rightarrow>
          \<not> (case blacklist config of None \<Rightarrow> False | Some bl \<Rightarrow> in_names tn bl) \<and>
          (case whitelist config of None \<Rightarrow> True | Some wl \<Rightarrow> wl = [] \<or> in_names tn wl))
   \<and> (map_of (servers proxy) sn = Some config \<and> blacklist config = Some bl \<and> t \<in> set bl \<and>
      map_of kvs ''method'' = Some (JStr ''tools/call'') \<and>
      map_of kvs ''params'' = Some (JObj ps) \<and> map_of ps ''name'' = Some (JStr t) \<longrightarrow>
        route_tool_call_to_server proxy (JObj kvs) sn =
          (Inr (case map_of kvs ''id'' of
                  None \<Rightarrow> JNull
                | Some i \<Rightarrow>
                    if i = JNull then JNull
                    else error_object i (if t = [] then -32602 else -32001)
                           (if t = [] then ''Missing tool name''
                            else ''Tool '' @ t @ '' not allowed'')),
           []) \<and>
        written_for_server proxy sn (JObj kvs) =
          (case map_of kvs ''id'' of
             None \<Rightarrow> []
           | Some i \<Rightarrow>
               if i = JNull then []
               else [error_object i (if t = [] then -32602 else -32001)
                       (if t = [] then ''Missing tool name''
                        else ''Tool '' @ t @ '' not allowed'')]))"
proof (intro conjI impI)
  show "is_tool_allowed proxy sn tn =
     (case map_of (servers proxy) sn of
        None \<Rightarrow> False
      | Some config \<Rightarrow>
          \<not> (case blacklist config of None \<Rightarrow> False | Some bl \<Rightarrow> in_names tn bl) \<and>
          (case whitelist config of None \<Rightarrow> True | Some wl \<Rightarrow> wl = [] \<or> in_names tn wl))"
    by (rule is_tool_allowed_decision)
next
  assume h: "map_of (servers proxy) sn = Some config \<and> blacklist config = Some bl \<and> t \<in> set bl \<and>
      map_of kvs ''method'' = Some (JStr ''tools/call'') \<and>
      map_of kvs ''params'' = Some (JObj ps) \<and> map_of ps ''name'' = Some (JStr t)"
  then have route: "route_tool_call_to_server proxy (JObj kvs) sn =
           (create_error_response (JObj kvs) (if t = [] then -32602 else -32001)
              (if t = [] then ''Missing tool name'' else ''Tool '' @ t @ '' not allowed''), [])"
    using route_blacklisted by blast
  show exact: "route_tool_call_to_server proxy (JObj kvs) sn =
          (Inr (case map_of kvs ''id'' of
                  None \<Rightarrow> JNull
                | Some i \<Rightarrow>
                    if i = JNull then JNull
                    else error_object i (if t = [] then -32602 else -32001)
                           (if t = [] then ''Missing tool name''
                            else ''Tool '' @ t @ '' not allowed'')),
           [])"
    unfolding route create_error_response_dict by simp
  have "dispatch_for_server proxy sn (JObj kvs) = route_tool_call_to_server proxy (JObj kvs) sn"
    using h by (intro dispatch_tools_call[of kvs ps]) simp_all
  then show "written_for_server proxy sn (JObj kvs) =
          (case map_of kvs ''id'' of
             None \<Rightarrow> []
           | Some i \<Rightarrow>
               if i = JNull then []
               else [error_object i (if t = [] then -32602 else -32001)
                       (if t = [] then ''Missing tool name''
                        else ''Tool '' @ t @ '' not allowed'')])"
    by (simp add: written_for_server_def exact client_output_def error_object_truthy
          split: option.splits)
qed

theorem access_decision_witness:
  "\<not> is_tool_allowed math_proxy ''math'' (JStr ''divide'')
   \<and> is_tool_allowed math_proxy ''math'' (JStr ''add'')
   \<and> route_tool_call_to_server math_proxy (JObj divide_fields) ''math'' =
       (Inr (error_object (JInt 1) (-32001) ''Tool divide not allowed''), [])
   \<and> written_for_server math_proxy ''math'' (JObj divide_fields) =
       [error_object (JInt 1) (-32001) ''Tool divide not allowed'']"
proof -
  let ?config = "(external_config ''math'' ''math-mcp'')\<lparr>blacklist := Some [''divide'']\<rparr>"
  have registered: "map_of (servers math_proxy) ''math'' = Some ?config"
    by (simp add: math_proxy_def process_started_def add_server_def new_proxy_def
          external_config_def)
  have lists: "blacklist ?config = Some [''divide'']" "whitelist ?config = None"
    by (simp_all add: external_config_def)
  have blacklisted:
    "map_of (servers math_proxy) ''math'' = Some ?config \<and> blacklist ?config = Some [''divide''] \<and>
     ''divide'' \<in> set [''divide''] \<and>
     map_of divide_fields ''method'' = Some (JStr ''tools/call'') \<and>
     map_of divide_fields ''params'' = Some (JObj [(''name'', JStr ''divide'')]) \<and>
     map_of [(''name'', JStr ''divide'')] ''name'' = Some (JStr ''divide'')"
    using registered lists(1) by (simp add: divide_fields_def)
  have msg_id: "map_of divide_fields ''id'' = Some (JInt 1)" by (simp add: divide_fields_def)
  note call = access_decision[THEN conjunct2, rule_format, OF blacklisted]
  have routed: "route_tool_call_to_server math_proxy (JObj divide_fields) ''math'' =
       (Inr (error_object (JInt 1) (-32001) ''Tool divide not allowed''), [])"
    using call[THEN conjunct1] by (simp add: msg_id)
  have written: "written_for_server math_proxy ''math'' (JObj divide_fields) =
       [error_object (JInt 1) (-32001) ''Tool divide not allowed'']"
    using call[THEN conjunct2] by (simp add: msg_id)
  have denied: "\<not> is_tool_allowed math_proxy ''math'' (JStr ''divide'')"
    using access_decision[of math_proxy "''math''" "JStr ''divide''"] registered lists
    by (simp add: in_names_def)
  have allowed: "is_tool_allowed math_proxy ''math'' (JStr ''add'')"
    using access_decision[of math_proxy "''math''" "JStr ''add''"] registered lists
    by (simp add: in_names_def)
  show ?thesis using denied allowed routed written by blast
qed

text \<open>
  The claim as stated fails: with the whitelist set to the empty list, the tool
  \<^verbatim>\<open>dangerous\<close> is allowed.
\<close>

theorem empty_whitelist_counterexample:
  "whitelist ((external_config ''utility'' ''utility-mcp'')\<lparr>whitelist := Some []\<rparr>) = Some []
   \<and> is_tool_allowed (utility_proxy (Some []) NotReady) ''utility'' (JStr ''dangerous'')"
  by (simp add: is_tool_allowed_def utility_proxy_def process_started_def add_server_def
        new_proxy_def external_config_def listed_def unlisted_def)

section \<open>Claim C6: the correlation guard\<close>










section \<open>Claim C7: the before pipeline\<close>

lemma before_specific:
  assumes "map_of (servers proxy) sn = Some config"
      and "map_of (intercept_before config) t = Some h"
  shows "process_server_interceptors_before proxy request sn (JStr t) =
     (case h request sn (JStr t) of
        Inl e \<Rightarrow> (Inr JNull, [BeforeHook t request])
      | Inr r \<Rightarrow>
          if r = JNull then (Inr JNull, [BeforeHook t request])
          else (case map_of (intercept_before config) ''*'' of
                  None \<Rightarrow> (Inr r, [BeforeHook t request])
                | Some w \<Rightarrow>
                    (case w r sn (JStr t) of
                       Inl e \<Rightarrow> (Inr JNull, [BeforeHook t request, BeforeHook ''*'' r])
                     | Inr r2 \<Rightarrow> (Inr r2, [BeforeHook t request, BeforeHook ''*'' r]))))"
proof -
  from assms(2) have ne: "intercept_before config \<noteq> []" by auto
  have fh: "find_hook (intercept_before config) (JStr t) = Inr (Some (t, h))"
    using assms(2) by (simp add: find_hook_def hook_key_def and_then_def)
  show ?thesis
    using assms(1) ne fh
    by (auto simp: process_server_interceptors_before_def logged_then_def quiet_def
          run_before_hook_def split: sum.splits option.splits)
qed

lemma route_blocked_before:
  assumes "map_of kvs ''params'' = Some (JObj ps)" and "map_of ps ''name'' = Some (JStr t)"
      and "t \<noteq> []" and "is_tool_allowed proxy sn (JStr t)"
      and "process_server_interceptors_before proxy (JObj kvs) sn (JStr t) = (Inr JNull, evs)"
  shows "route_tool_call_to_server proxy (JObj kvs) sn =
           (create_error_response (JObj kvs) (-32001) ''Tool call blocked by interceptor'', evs)"
  using assms by (simp add: route_tool_call_to_server_def logged_then_def quiet_def)

lemma route_forwards:
  assumes "map_of kvs ''params'' = Some (JObj ps)" and "map_of ps ''name'' = Some (JStr t)"
      and "t \<noteq> []" and "is_tool_allowed proxy sn (JStr t)"
      and "process_server_interceptors_before proxy (JObj kvs) sn (JStr t) = (Inr pr, evs)"
      and "pr \<noteq> JNull"
  shows "\<exists>rest. snd (route_tool_call_to_server proxy (JObj kvs) sn) = evs @ Forward sn pr # rest"
proof -
  let ?k = "\<lambda>response.
       if response = JNull
       then quiet (create_error_response (JObj kvs) (-32003) ''No response from server'')
       else logged_then (process_server_interceptors_after proxy pr response sn (JStr t))
              (\<lambda>processed_response.
                 if processed_response = JNull
                 then quiet (create_error_response (JObj kvs) (-32001)
                               ''Response blocked by interceptor'')
                 else quiet (Inr processed_response))"
  obtain rest where "snd (logged_then (forward_to_server proxy sn pr) ?k) = Forward sn pr # rest"
    using logged_then_forward_prefix by blast
  then have "snd (route_tool_call_to_server proxy (JObj kvs) sn) = evs @ Forward sn pr # rest"
    using assms by (simp add: route_tool_call_to_server_def logged_then_events quiet_def)
  then show ?thesis by blast
qed

text \<open>
  Claim C7, as amended. For a \<^verbatim>\<open>tools/call\<close> request (with an id) for an allowed tool \<open>t\<close>
  that has a before-hook of its own (\<open>t\<close> is not the wildcard key): when that hook returns
  \<^verbatim>\<open>None\<close> or raises, the only call made is the one of the specific hook, neither the
  wildcard hook nor \<^verbatim>\<open>_forward_to_server\<close> is called, and the client is sent the error
  \<^verbatim>\<open>-32001\<close> with the request's id. When the hook returns a request \<open>r\<close>, the wildcard
  hook, if there is one, is called next, with \<open>r\<close> and not with the original. What is
  forwarded then is the wildcard hook's return value \<open>r2\<close>, or \<open>r\<close> itself when there is
  no wildcard hook; when the wildcard hook returns \<^verbatim>\<open>None\<close> or raises, nothing is forwarded
  and the client is sent the error \<^verbatim>\<open>-32001\<close> with the request's id.
\<close>

theorem before_hook_composition:
  assumes "map_of (servers proxy) sn = Some config"
      and "map_of (intercept_before config) t = Some h"
      and "t \<noteq> []" and "t \<noteq> ''*''"
      and "is_tool_allowed proxy sn (JStr t)"
      and "map_of kvs ''id'' = Some i" and "i \<noteq> JNull"
      and "map_of kvs ''method'' = Some (JStr ''tools/call'')"
      and "map_of kvs ''params'' = Some (JObj ps)" and "map_of ps ''name'' = Some (JStr t)"
  shows "(h (JObj kvs) sn (JStr t) = Inr JNull \<or> (\<exists>e. h (JObj kvs) sn (JStr t) = Inl e) \<longrightarrow>
            route_tool_call_to_server proxy (JObj kvs) sn =
              (Inr (error_object i (-32001) ''Tool call blocked by interceptor''),
               [BeforeHook t (JObj kvs)]) \<and>
            written_for_server proxy sn (JObj kvs) =
              [error_object i (-32001) ''Tool call blocked by interceptor''])
       \<and> (\<forall>r. h (JObj kvs) sn (JStr t) = Inr r \<and> r \<noteq> JNull \<longrightarrow>
            (case map_of (intercept_before config) ''*'' of
               None \<Rightarrow>
                 take 2 (snd (route_tool_call_to_server proxy (JObj kvs) sn)) =
                   [BeforeHook t (JObj kvs), Forward sn r]
             | Some w \<Rightarrow>
                 take 2 (snd (route_tool_call_to_server proxy (JObj kvs) sn)) =
                   [BeforeHook t (JObj kvs), BeforeHook ''*'' r] \<and>
                 (\<forall>r2. w r sn (JStr t) = Inr r2 \<and> r2 \<noteq> JNull \<longrightarrow>
                    take 3 (snd (route_tool_call_to_server proxy (JObj kvs) sn)) =
                      [BeforeHook t (JObj kvs), BeforeHook ''*'' r, Forward sn r2]) \<and>
                 (w r sn (JStr t) = Inr JNull \<or> (\<exists>e. w r sn (JStr t) = Inl e) \<longrightarrow>
                    route_tool_call_to_server proxy (JObj kvs) sn =
                      (Inr (error_object i (-32001) ''Tool call blocked by interceptor''),
                       [BeforeHook t (JObj kvs), BeforeHook ''*'' r]) \<and>
                    written_for_server proxy sn (JObj kvs) =
                      [error_object i (-32001) ''Tool call blocked by interceptor''])))"
proof -
  note before = before_specific[OF assms(1,2), of "JObj kvs"]
  note blocked = route_blocked_before[OF assms(9,10,3,5)]
  note forwards = route_forwards[OF assms(9,10,3,5)]
  note err = create_error_response_has_id[OF assms(6,7)]
  have dispatch: "dispatch_for_server proxy sn (JObj kvs) =
                    route_tool_call_to_server proxy (JObj kvs) sn"
    using assms(8,9) by (intro dispatch_tools_call[of kvs ps]) simp_all
  have written: "written_for_server proxy sn (JObj kvs) =
                   [error_object i (-32001) ''Tool call blocked by interceptor'']"
    if "route_tool_call_to_server proxy (JObj kvs) sn =
          (Inr (error_object i (-32001) ''Tool call blocked by interceptor''), evs)" for evs
    using that by (simp add: written_for_server_def dispatch client_output_def error_object_truthy)
  have first: "route_tool_call_to_server proxy (JObj kvs) sn =
      (Inr (error_object i (-32001) ''Tool call blocked by interceptor''), [BeforeHook t (JObj kvs)])"
    if "h (JObj kvs) sn (JStr t) = Inr JNull \<or> (\<exists>e. h (JObj kvs) sn (JStr t) = Inl e)"
  proof -
    have "process_server_interceptors_before proxy (JObj kvs) sn (JStr t) =
            (Inr JNull, [BeforeHook t (JObj kvs)])"
      using that by (auto simp: before)
    then show ?thesis by (simp add: blocked err)
  qed
  have second: "(case map_of (intercept_before config) ''*'' of
               None \<Rightarrow>
                 take 2 (snd (route_tool_call_to_server proxy (JObj kvs) sn)) =
                   [BeforeHook t (JObj kvs), Forward sn r]
             | Some w \<Rightarrow>
                 take 2 (snd (route_tool_call_to_server proxy (JObj kvs) sn)) =
                   [BeforeHook t (JObj kvs), BeforeHook ''*'' r] \<and>
                 (\<forall>r2. w r sn (JStr t) = Inr r2 \<and> r2 \<noteq> JNull \<longrightarrow>
                    take 3 (snd (route_tool_call_to_server proxy (JObj kvs) sn)) =
                      [BeforeHook t (JObj kvs), BeforeHook ''*'' r, Forward sn r2]) \<and>
                 (w r sn (JStr t) = Inr JNull \<or> (\<exists>e. w r sn (JStr t) = Inl e) \<longrightarrow>
                    route_tool_call_to_server proxy (JObj kvs) sn =
                      (Inr (error_object i (-32001) ''Tool call blocked by interceptor''),
                       [BeforeHook t (JObj kvs), BeforeHook ''*'' r]) \<and>
                    written_for_server proxy sn (JObj kvs) =
                      [error_object i (-32001) ''Tool call blocked by interceptor'']))"
    if hr: "h (JObj kvs) sn (JStr t) = Inr r" "r \<noteq> JNull" for r
  proof (cases "map_of (intercept_before config) ''*''")
    case None
    then have "process_server_interceptors_before proxy (JObj kvs) sn (JStr t) =
                 (Inr r, [BeforeHook t (JObj kvs)])"
      using hr by (simp add: before)
    from forwards[OF this hr(2)] show ?thesis using None by auto
  next
    case (Some w)
    have stopped: "route_tool_call_to_server proxy (JObj kvs) sn =
                      (Inr (error_object i (-32001) ''Tool call blocked by interceptor''),
                       [BeforeHook t (JObj kvs), BeforeHook ''*'' r])"
      if "w r sn (JStr t) = Inr JNull \<or> (\<exists>e. w r sn (JStr t) = Inl e)"
    proof -
      have "process_server_interceptors_before proxy (JObj kvs) sn (JStr t) =
              (Inr JNull, [BeforeHook t (JObj kvs), BeforeHook ''*'' r])"
        using that hr Some by (auto simp: before)
      then show ?thesis by (simp add: blocked err)
    qed
    have three: "take 3 (snd (route_tool_call_to_server proxy (JObj kvs) sn)) =
                      [BeforeHook t (JObj kvs), BeforeHook ''*'' r, Forward sn r2]"
      if w: "w r sn (JStr t) = Inr r2" "r2 \<noteq> JNull" for r2
    proof -
      have "process_server_interceptors_before proxy (JObj kvs) sn (JStr t) =
              (Inr r2, [BeforeHook t (JObj kvs), BeforeHook ''*'' r])"
        using w hr Some by (simp add: before)
      from forwards[OF this w(2)] show ?thesis by auto
    qed
    have two: "take 2 (snd (route_tool_call_to_server proxy (JObj kvs) sn)) =
                   [BeforeHook t (JObj kvs), BeforeHook ''*'' r]"
    proof (cases "w r sn (JStr t) = Inr JNull \<or> (\<exists>e. w r sn (JStr t) = Inl e)")
      case True
      then show ?thesis by (simp add: stopped)
    next
      case False
      then obtain r2 where "w r sn (JStr t) = Inr r2" "r2 \<noteq> JNull"
        by (cases "w r sn (JStr t)") auto
      from three[OF this]
      have "take 2 (take 3 (snd (route_tool_call_to_server proxy (JObj kvs) sn))) =
              [BeforeHook t (JObj kvs), BeforeHook ''*'' r]"
        by simp
      then show ?thesis by simp
    qed
    show ?thesis
      unfolding Some option.case
      by (intro conjI allI impI) (use two three stopped written in blast)+
  qed
  show ?thesis
    by (intro conjI allI impI) (use first second written in blast)+
qed

lemma browser_proxy_facts:
  "map_of (servers (browser_proxy hooks)) ''browser'' =
     Some ((external_config ''browser'' ''browser-mcp'')\<lparr>intercept_before := hooks\<rparr>)"
  "intercept_before ((external_config ''browser'' ''browser-mcp'')\<lparr>intercept_before := hooks\<rparr>) = hooks"
  "is_tool_allowed (browser_proxy hooks) ''browser'' (JStr ''navigate'')"
  by (simp_all add: browser_proxy_def process_started_def add_server_def new_proxy_def
        external_config_def is_tool_allowed_def listed_def unlisted_def)

lemma navigate_fields_facts:
  "map_of (navigate_fields u) ''id'' = Some (JInt 4)"
  "map_of (navigate_fields u) ''method'' = Some (JStr ''tools/call'')"
  "map_of (navigate_fields u) ''params'' = Some (JObj (navigate_params u))"
  "map_of (navigate_params u) ''name'' = Some (JStr ''navigate'')"
  by (simp_all add: navigate_fields_def navigate_params_def)

theorem before_hook_composition_witness:
  "written_for_server (browser_proxy [(''navigate'', guard_url), (''*'', stamp_all)]) ''browser''
     (JObj (navigate_fields ''https://malicious.example/'')) =
     [error_object (JInt 4) (-32001) ''Tool call blocked by interceptor'']
   \<and> snd (route_tool_call_to_server (browser_proxy [(''navigate'', guard_url), (''*'', stamp_all)])
            (JObj (navigate_fields ''https://malicious.example/'')) ''browser'') =
     [BeforeHook ''navigate'' (JObj (navigate_fields ''https://malicious.example/''))]
   \<and> take 2 (snd (route_tool_call_to_server (browser_proxy [(''navigate'', guard_url)])
                     (JObj (navigate_fields ''https://example.org/'')) ''browser'')) =
     [BeforeHook ''navigate'' (JObj (navigate_fields ''https://example.org/'')),
      Forward ''browser'' (JObj (navigate_fields ''https://example.org/'' @ [(''checked'', JBool True)]))]
   \<and> take 3 (snd (route_tool_call_to_server
                     (browser_proxy [(''navigate'', guard_url), (''*'', stamp_all)])
                     (JObj (navigate_fields ''https://example.org/'')) ''browser'')) =
     [BeforeHook ''navigate'' (JObj (navigate_fields ''https://example.org/'')),
      BeforeHook ''*'' (JObj (navigate_fields ''https://example.org/'' @ [(''checked'', JBool True)])),
      Forward ''browser''
        (JObj (navigate_fields ''https://example.org/'' @
                 [(''checked'', JBool True), (''audited'', JBool True)]))]
   \<and> written_for_server (browser_proxy [(''navigate'', guard_url), (''*'', block_all)]) ''browser''
       (JObj (navigate_fields ''https://example.org/'')) =
     [error_object (JInt 4) (-32001) ''Tool call blocked by interceptor'']"
proof -
  let ?bad = "navigate_fields ''https://malicious.example/''"
  let ?good = "navigate_fields ''https://example.org/''"
  let ?checked = "JObj (?good @ [(''checked'', JBool True)])"
  let ?audited = "JObj (?good @ [(''checked'', JBool True), (''audited'', JBool True)])"
  have tool: "''navigate'' \<noteq> []" "''navigate'' \<noteq> ''*''" and num: "JInt 4 \<noteq> JNull"
    by simp_all
  have composition:
    "(guard_url (JObj (navigate_fields u)) ''browser'' (JStr ''navigate'') = Inr JNull \<or>
      (\<exists>e. guard_url (JObj (navigate_fields u)) ''browser'' (JStr ''navigate'') = Inl e) \<longrightarrow>
        route_tool_call_to_server (browser_proxy hooks) (JObj (navigate_fields u)) ''browser'' =
          (Inr (error_object (JInt 4) (-32001) ''Tool call blocked by interceptor''),
           [BeforeHook ''navigate'' (JObj (navigate_fields u))]) \<and>
        written_for_server (browser_proxy hooks) ''browser'' (JObj (navigate_fields u)) =
          [error_object (JInt 4) (-32001) ''Tool call blocked by interceptor''])
     \<and> (\<forall>r. guard_url (JObj (navigate_fields u)) ''browser'' (JStr ''navigate'') = Inr r \<and>
             r \<noteq> JNull \<longrightarrow>
          (case map_of hooks ''*'' of
             None \<Rightarrow>
               take 2 (snd (route_tool_call_to_server (browser_proxy hooks)
                              (JObj (navigate_fields u)) ''browser'')) =
                 [BeforeHook ''navigate'' (JObj (navigate_fields u)), Forward ''browser'' r]
           | Some w \<Rightarrow>
               take 2 (snd (route_tool_call_to_server (browser_proxy hooks)
                              (JObj (navigate_fields u)) ''browser'')) =
                 [BeforeHook ''navigate'' (JObj (navigate_fields u)), BeforeHook ''*'' r] \<and>
               (\<forall>r2. w r ''browser'' (JStr ''navigate'') = Inr r2 \<and> r2 \<noteq> JNull \<longrightarrow>
                  take 3 (snd (route_tool_call_to_server (browser_proxy hooks)
                                 (JObj (navigate_fields u)) ''browser'')) =
                    [BeforeHook ''navigate'' (JObj (navigate_fields u)), BeforeHook ''*'' r,
                     Forward ''browser'' r2]) \<and>
               (w r ''browser'' (JStr ''navigate'') = Inr JNull \<or>
                (\<exists>e. w r ''browser'' (JStr ''navigate'') = Inl e) \<longrightarrow>
                  route_tool_call_to_server (browser_proxy hooks) (JObj (navigate_fields u))
                    ''browser'' =
                    (Inr (error_object (JInt 4) (-32001) ''Tool call blocked by interceptor''),
                     [BeforeHook ''navigate'' (JObj (navigate_fields u)), BeforeHook ''*'' r]) \<and>
                  written_for_server (browser_proxy hooks) ''browser'' (JObj (navigate_fields u)) =
                    [error_object (JInt 4) (-32001) ''Tool call blocked by interceptor''])))"
    if "map_of hooks ''navigate'' = Some guard_url" for hooks u
    using before_hook_composition[OF browser_proxy_facts(1), of hooks "''navigate''" guard_url
        "navigate_fields u" "JInt 4" "navigate_params u"]
      that tool num browser_proxy_facts(2,3) navigate_fields_facts
    by simp
  have block: "guard_url (JObj ?bad) ''browser'' (JStr ''navigate'') = Inr JNull"
    by code_simp
  have pass: "guard_url (JObj ?good) ''browser'' (JStr ''navigate'') = Inr ?checked"
    by code_simp
  have stamp: "stamp_all ?checked ''browser'' (JStr ''navigate'') = Inr ?audited"
    by (simp add: stamp_all_def)
  have stop: "block_all ?checked ''browser'' (JStr ''navigate'') = Inr JNull"
    by (simp add: block_all_def)
  have a: "route_tool_call_to_server (browser_proxy [(''navigate'', guard_url), (''*'', stamp_all)])
             (JObj ?bad) ''browser'' =
             (Inr (error_object (JInt 4) (-32001) ''Tool call blocked by interceptor''),
              [BeforeHook ''navigate'' (JObj ?bad)]) \<and>
           written_for_server (browser_proxy [(''navigate'', guard_url), (''*'', stamp_all)]) ''browser''
             (JObj ?bad) = [error_object (JInt 4) (-32001) ''Tool call blocked by interceptor'']"
    using composition[of "[(''navigate'', guard_url), (''*'', stamp_all)]"
        "''https://malicious.example/''", THEN conjunct1] block
    by simp
  have b: "take 2 (snd (route_tool_call_to_server (browser_proxy [(''navigate'', guard_url)])
                     (JObj ?good) ''browser'')) =
             [BeforeHook ''navigate'' (JObj ?good), Forward ''browser'' ?checked]"
    using composition[of "[(''navigate'', guard_url)]" "''https://example.org/''",
        THEN conjunct2, rule_format, of ?checked] pass
    by simp
  have c: "take 3 (snd (route_tool_call_to_server
                     (browser_proxy [(''navigate'', guard_url), (''*'', stamp_all)])
                     (JObj ?good) ''browser'')) =
             [BeforeHook ''navigate'' (JObj ?good), BeforeHook ''*'' ?checked,
              Forward ''browser'' ?audited]"
    using composition[of "[(''navigate'', guard_url), (''*'', stamp_all)]" "''https://example.org/''",
        THEN conjunct2, rule_format, of ?checked] pass stamp
    by simp
  have d: "written_for_server (browser_proxy [(''navigate'', guard_url), (''*'', block_all)])
             ''browser'' (JObj ?good) =
             [error_object (JInt 4) (-32001) ''Tool call blocked by interceptor'']"
    using composition[of "[(''navigate'', guard_url), (''*'', block_all)]" "''https://example.org/''",
        THEN conjunct2, rule_format, of ?checked] pass stop
    by simp
  show ?thesis using a b c d by simp
qed

text \<open>
  The claim as stated fails: the hook of \<^verbatim>\<open>navigate\<close> returns the request marked as
  checked, the wildcard hook marks it as audited too, and the request forwarded is the
  wildcard hook's, not the one the specific hook returned.
\<close>

theorem wildcard_rewrites_counterexample:
  "snd (route_tool_call_to_server (browser_proxy [(''navigate'', guard_url), (''*'', stamp_all)])
          (JObj (navigate_fields ''https://example.org/'')) ''browser'') =
     [BeforeHook ''navigate'' (JObj (navigate_fields ''https://example.org/'')),
      BeforeHook ''*'' (JObj (navigate_fields ''https://example.org/'' @ [(''checked'', JBool True)])),
      Forward ''browser''
        (JObj (navigate_fields ''https://example.org/'' @
                 [(''checked'', JBool True), (''audited'', JBool True)]))]
   \<and> JObj (navigate_fields ''https://example.org/'' @ [(''checked'', JBool True)]) \<noteq>
       JObj (navigate_fields ''https://example.org/'' @
               [(''checked'', JBool True), (''audited'', JBool True)])"
  by code_simp

section \<open>Claim C8: tools/list on a backend's endpoint\<close>

lemma filter_tools_dicts:
  "list_all is_dict ts \<Longrightarrow>
   filter_tools proxy sn ts =
     Inr (filter (\<lambda>tool. truthy (named tool) \<and> is_tool_allowed proxy sn (named tool)) ts)"
proof (induction ts)
  case Nil
  then show ?case by simp
next
  case (Cons a ts)
  then obtain akvs where "a = JObj akvs" by (cases a) auto
  with Cons show ?case by (simp add: and_then_def named_def)
qed

lemma tools_list_of:
  assumes "fst (forward_to_server proxy sn (JObj kvs)) = Inr response"
  shows "fst (handle_tools_list_for_server proxy (JObj kvs) sn) =
     and_then (if truthy response then py_in ''result'' response else Inr False)
       (\<lambda>has_result.
          if has_result then
            and_then (py_getitem response ''result'') (\<lambda>result.
            and_then (py_get result ''tools'' (JArr [])) (\<lambda>tools_value.
            and_then (py_iter tools_value) (\<lambda>tool_list.
            and_then (filter_tools proxy sn tool_list) (\<lambda>filtered_tools.
              tools_response (JObj kvs) filtered_tools))))
          else tools_response (JObj kvs) [])"
  using assms by (simp add: handle_tools_list_for_server_def logged_then_def quiet_def)

lemma forward_without_reply:
  assumes "map_of (python_servers proxy) sn = None"
      and "map_of (active_processes proxy) sn = Some proc"
      and "stdin_write proc (JObj kvs) = None"
      and "read_server_response_with_timeout (stdout_read proc (JObj kvs)) = JNull"
  shows "\<exists>code text. fst (forward_to_server proxy sn (JObj kvs)) =
           create_error_response (JObj kvs) code text"
  using assms by (auto simp: forward_to_server_def forward_process_body_def
        create_error_response_dict)

text \<open>
  Claim C8, as amended. The response to \<^verbatim>\<open>tools/list\<close> carries the id of the message and,
  as \<^verbatim>\<open>result.tools\<close>, the tool list that \<^verbatim>\<open>_forward_to_server\<close> returned for the backend,
  without the entries whose \<^verbatim>\<open>name\<close> is missing or empty and without the entries the
  access filter denies, in the backend's order. When \<^verbatim>\<open>_forward_to_server\<close> returns
  nothing or a response without \<^verbatim>\<open>result\<close>, and in particular when the backend's process
  takes the request and sends no reply, \<^verbatim>\<open>result.tools\<close> is the empty list.
\<close>

theorem tools_list_filtered:
  "(fst (forward_to_server proxy sn (JObj kvs)) = Inr (JObj rkvs) \<and>
    map_of rkvs ''result'' = Some (JObj res) \<and> map_of res ''tools'' = Some (JArr ts) \<and>
    list_all is_dict ts \<longrightarrow>
      fst (handle_tools_list_for_server proxy (JObj kvs) sn) =
        Inr (JObj [(''jsonrpc'', JStr ''2.0''),
                   (''id'', case map_of kvs ''id'' of None \<Rightarrow> JNull | Some v \<Rightarrow> v),
                   (''result'',
                      JObj [(''tools'',
                             JArr (filter (\<lambda>tool. truthy (named tool) \<and>
                                             is_tool_allowed proxy sn (named tool)) ts))])]))
   \<and> (fst (forward_to_server proxy sn (JObj kvs)) = Inr response \<and>
      (\<not> truthy response \<or> py_in ''result'' response = Inr False) \<longrightarrow>
        fst (handle_tools_list_for_server proxy (JObj kvs) sn) =
          Inr (JObj [(''jsonrpc'', JStr ''2.0''),
                     (''id'', case map_of kvs ''id'' of None \<Rightarrow> JNull | Some v \<Rightarrow> v),
                     (''result'', JObj [(''tools'', JArr [])])]))
   \<and> (map_of (python_servers proxy) sn = None \<and>
      map_of (active_processes proxy) sn = Some proc \<and>
      stdin_write proc (JObj kvs) = None \<and>
      read_server_response_with_timeout (stdout_read proc (JObj kvs)) = JNull \<longrightarrow>
        fst (handle_tools_list_for_server proxy (JObj kvs) sn) =
          Inr (JObj [(''jsonrpc'', JStr ''2.0''),
                     (''id'', case map_of kvs ''id'' of None \<Rightarrow> JNull | Some v \<Rightarrow> v),
                     (''result'', JObj [(''tools'', JArr [])])]))"
proof -
  let ?id = "case map_of kvs ''id'' of None \<Rightarrow> JNull | Some v \<Rightarrow> v"
  let ?empty = "Inr (JObj [(''jsonrpc'', JStr ''2.0''), (''id'', ?id),
                          (''result'', JObj [(''tools'', JArr [])])])"
  have a: "fst (handle_tools_list_for_server proxy (JObj kvs) sn) =
        Inr (JObj [(''jsonrpc'', JStr ''2.0''), (''id'', ?id),
                   (''result'',
                      JObj [(''tools'',
                             JArr (filter (\<lambda>tool. truthy (named tool) \<and>
                                             is_tool_allowed proxy sn (named tool)) ts))])])"
    if fwd: "fst (forward_to_server proxy sn (JObj kvs)) = Inr (JObj rkvs)"
      and shape: "map_of rkvs ''result'' = Some (JObj res)" "map_of res ''tools'' = Some (JArr ts)"
        "list_all is_dict ts"
  proof -
    from shape(1) have "rkvs \<noteq> []" by auto
    moreover from shape(1) have "''result'' \<in> fst ` set rkvs" by (rule map_of_key)
    ultimately show ?thesis using shape
      by (simp add: tools_list_of[OF fwd] and_then_def filter_tools_dicts tools_response_def)
  qed
  have b: "fst (handle_tools_list_for_server proxy (JObj kvs) sn) = ?empty"
    if fwd: "fst (forward_to_server proxy sn (JObj kvs)) = Inr response"
      and none: "\<not> truthy response \<or> py_in ''result'' response = Inr False" for response
    using none by (auto simp: tools_list_of[OF fwd] and_then_def tools_response_def)
  have c: "fst (handle_tools_list_for_server proxy (JObj kvs) sn) = ?empty"
    if "map_of (python_servers proxy) sn = None" "map_of (active_processes proxy) sn = Some proc"
       "stdin_write proc (JObj kvs) = None"
       "read_server_response_with_timeout (stdout_read proc (JObj kvs)) = JNull"
  proof -
    from forward_without_reply[OF that] obtain code msg where
      fwd: "fst (forward_to_server proxy sn (JObj kvs)) = create_error_response (JObj kvs) code msg"
      by blast
    let ?r = "case map_of kvs ''id'' of None \<Rightarrow> JNull
              | Some i \<Rightarrow> if i = JNull then JNull else error_object i code msg"
    have "fst (forward_to_server proxy sn (JObj kvs)) = Inr ?r"
      by (simp add: fwd create_error_response_dict)
    moreover have "\<not> truthy ?r \<or> py_in ''result'' ?r = Inr False"
      by (simp add: error_object_no_result split: option.splits)
    ultimately show ?thesis by (rule b)
  qed
  show ?thesis
    by (intro conjI impI) (use a b c in blast)+
qed

theorem tools_list_filtered_witness:
  "fst (handle_tools_list_for_server
          (utility_proxy (Some [''get_time''])
             (Reply (tools_reply [tool_entry ''get_time'', tool_entry ''dangerous''])))
          (JObj tools_list_fields) ''utility'') =
     Inr (tools_reply [tool_entry ''get_time''])
   \<and> fst (handle_tools_list_for_server (utility_proxy (Some [''get_time'']) NotReady)
            (JObj tools_list_fields) ''utility'') =
     Inr (tools_reply [])"
proof -
  let ?reply = "tools_reply [tool_entry ''get_time'', tool_entry ''dangerous'']"
  let ?p = "utility_proxy (Some [''get_time'']) (Reply ?reply)"
  let ?q = "utility_proxy (Some [''get_time'']) NotReady"
  have fwd: "fst (forward_to_server ?p ''utility'' (JObj tools_list_fields)) =
               Inr (JObj [(''jsonrpc'', JStr ''2.0''), (''id'', JInt 2),
                          (''result'', JObj [(''tools'', JArr [tool_entry ''get_time'',
                                                               tool_entry ''dangerous''])])])"
    by code_simp
  have shape:
    "map_of [(''jsonrpc'', JStr ''2.0''), (''id'', JInt 2),
             (''result'', JObj [(''tools'', JArr [tool_entry ''get_time'', tool_entry ''dangerous''])])]
       ''result'' = Some (JObj [(''tools'', JArr [tool_entry ''get_time'', tool_entry ''dangerous''])])"
    "map_of [(''tools'', JArr [tool_entry ''get_time'', tool_entry ''dangerous''])] ''tools'' =
       Some (JArr [tool_entry ''get_time'', tool_entry ''dangerous''])"
    "list_all is_dict [tool_entry ''get_time'', tool_entry ''dangerous'']"
    by (simp_all add: tool_entry_def)
  have kept: "filter (\<lambda>tool. truthy (named tool) \<and> is_tool_allowed ?p ''utility'' (named tool))
                [tool_entry ''get_time'', tool_entry ''dangerous''] = [tool_entry ''get_time'']"
    by code_simp
  have msg_id: "(case map_of tools_list_fields ''id'' of None \<Rightarrow> JNull | Some v \<Rightarrow> v) = JInt 2"
    by (simp add: tools_list_fields_def)
  have first: "fst (handle_tools_list_for_server ?p (JObj tools_list_fields) ''utility'') =
                 Inr (tools_reply [tool_entry ''get_time''])"
    using tools_list_filtered[THEN conjunct1, rule_format,
        OF conjI[OF fwd conjI[OF shape(1) conjI[OF shape(2) shape(3)]]]]
    unfolding kept msg_id by (simp add: tools_reply_def)
  have backend: "map_of (python_servers ?q) ''utility'' = None"
    "map_of (active_processes ?q) ''utility'' = Some (scripted_process NotReady)"
    "stdin_write (scripted_process NotReady) (JObj tools_list_fields) = None"
    "read_server_response_with_timeout
       (stdout_read (scripted_process NotReady) (JObj tools_list_fields)) = JNull"
    by (simp_all add: utility_proxy_def process_started_def add_server_def new_proxy_def
          scripted_process_def read_server_response_with_timeout_def)
  have fwd2: "fst (forward_to_server ?q ''utility'' (JObj tools_list_fields)) =
                Inr (error_object (JInt 2) (-32003) ''No response from server (timeout)'')"
    by code_simp
  have silent: "\<not> truthy (error_object (JInt 2) (-32003) ''No response from server (timeout)'') \<or>
                py_in ''result'' (error_object (JInt 2) (-32003) ''No response from server (timeout)'')
                  = Inr False"
    by (simp add: error_object_no_result)
  have second: "fst (handle_tools_list_for_server ?q (JObj tools_list_fields) ''utility'') =
                  Inr (tools_reply [])"
    using tools_list_filtered[THEN conjunct2, THEN conjunct1, rule_format, OF conjI[OF fwd2 silent]]
    unfolding msg_id by (simp add: tools_reply_def)
  have third: "fst (handle_tools_list_for_server ?q (JObj tools_list_fields) ''utility'') =
                  Inr (tools_reply [])"
    using tools_list_filtered[THEN conjunct2, THEN conjunct2, rule_format,
        OF conjI[OF backend(1) conjI[OF backend(2) conjI[OF backend(3) backend(4)]]]]
    unfolding msg_id by (simp add: tools_reply_def)
  show ?thesis using first second third by blast
qed

text \<open>
  The claim as stated fails: the backend \<^verbatim>\<open>utility\<close>, without whitelist or blacklist,
  reports the tools \<^verbatim>\<open>get_time\<close> and one whose name is the empty string. The access filter
  allows the empty name, and yet the tool is left out of the response.
\<close>

theorem unnamed_tool_dropped_counterexample:
  "is_tool_allowed
     (utility_proxy None (Reply (tools_reply [tool_entry ''get_time'', tool_entry ''''])))
     ''utility'' (JStr '''')
   \<and> fst (handle_tools_list_for_server
            (utility_proxy None (Reply (tools_reply [tool_entry ''get_time'', tool_entry ''''])))
            (JObj tools_list_fields) ''utility'') =
       Inr (tools_reply [tool_entry ''get_time''])"
  by code_simp

section \<open>Claim C9: the child's environment\<close>

text \<open>
  Claim C9. Without \<^verbatim>\<open>inherit_env\<close> the child's environment is \<^verbatim>\<open>PATH\<close> and \<^verbatim>\<open>LANG\<close> (from
  the parent's environment, else the defaults) overlaid with the backend's \<^verbatim>\<open>env\<close>, so
  its keys are exactly \<^verbatim>\<open>PATH\<close>, \<^verbatim>\<open>LANG\<close> and those of \<^verbatim>\<open>env\<close>; with \<^verbatim>\<open>inherit_env\<close> it is the
  parent's environment overlaid with \<^verbatim>\<open>env\<close>. In both cases an entry of \<^verbatim>\<open>env\<close> wins over
  the inherited value of its key.
\<close>

theorem build_subprocess_env_overlay:
  "build_subprocess_env environ config =
     (if inherit_env config then environ
      else [''PATH'' \<mapsto> environ_get environ ''PATH'' ''/usr/bin:/bin:/usr/sbin:/sbin'',
            ''LANG'' \<mapsto> environ_get environ ''LANG'' ''C.UTF-8'']) ++ env config
   \<and> (\<not> inherit_env config \<longrightarrow>
        dom (build_subprocess_env environ config) = {''PATH'', ''LANG''} \<union> dom (env config))
   \<and> (inherit_env config \<longrightarrow>
        dom (build_subprocess_env environ config) = dom environ \<union> dom (env config))
   \<and> (env config k = Some v \<longrightarrow> build_subprocess_env environ config k = Some v)
   \<and> (env config k = None \<and> inherit_env config \<longrightarrow>
        build_subprocess_env environ config k = environ k)
   \<and> (env config ''PATH'' = None \<and> \<not> inherit_env config \<longrightarrow>
        build_subprocess_env environ config ''PATH'' =
          Some (environ_get environ ''PATH'' ''/usr/bin:/bin:/usr/sbin:/sbin''))
   \<and> (env config ''LANG'' = None \<and> \<not> inherit_env config \<longrightarrow>
        build_subprocess_env environ config ''LANG'' =
          Some (environ_get environ ''LANG'' ''C.UTF-8''))"
  by (auto simp: build_subprocess_env_def Let_def map_add_def dom_def split: option.splits)

theorem build_subprocess_env_overlay_witness:
  "dom (build_subprocess_env parent_environ (env_config False)) = {''PATH'', ''LANG'', ''HOME'', ''TOKEN''}
   \<and> dom (build_subprocess_env parent_environ (env_config True)) = {''PATH'', ''HOME'', ''TOKEN''}
   \<and> build_subprocess_env parent_environ (env_config True) ''HOME'' = Some ''/srv''
   \<and> build_subprocess_env parent_environ (env_config True) ''PATH'' = Some ''/opt/bin''
   \<and> build_subprocess_env parent_environ (env_config False) ''PATH'' = Some ''/opt/bin''
   \<and> build_subprocess_env parent_environ (env_config False) ''LANG'' = Some ''C.UTF-8''"
proof -
  have e: "env (env_config b) = [''HOME'' \<mapsto> ''/srv'', ''TOKEN'' \<mapsto> ''t'']"
     "inherit_env (env_config b) = b" for b
    by (simp_all add: env_config_def external_config_def)
  have d: "dom (env (env_config b)) = {''HOME'', ''TOKEN''}" for b
    by (auto simp: e)
  have 1: "dom (build_subprocess_env parent_environ (env_config False)) = {''PATH'', ''LANG'', ''HOME'', ''TOKEN''}"
    using build_subprocess_env_overlay[of parent_environ "env_config False"] e(2)[of False] d[of False]
    by auto
  have 2: "dom (build_subprocess_env parent_environ (env_config True)) = {''PATH'', ''HOME'', ''TOKEN''}"
    using build_subprocess_env_overlay[of parent_environ "env_config True"] e(2)[of True] d[of True]
    by (auto simp: parent_environ_def)
  have 3: "build_subprocess_env parent_environ (env_config True) ''HOME'' = Some ''/srv''"
    using build_subprocess_env_overlay[of parent_environ "env_config True" "''HOME''" "''/srv''"]
    by (simp add: e)
  have 4: "build_subprocess_env parent_environ (env_config True) ''PATH'' = Some ''/opt/bin''"
    using build_subprocess_env_overlay[of parent_environ "env_config True" "''PATH''"]
    by (simp add: e parent_environ_def)
  have 5: "build_subprocess_env parent_environ (env_config False) ''PATH'' = Some ''/opt/bin''"
    using build_subprocess_env_overlay[of parent_environ "env_config False"]
    by (simp add: e parent_environ_def environ_get_def)
  have 6: "build_subprocess_env parent_environ (env_config False) ''LANG'' = Some ''C.UTF-8''"
    using build_subprocess_env_overlay[of parent_environ "env_config False"]
    by (simp add: e parent_environ_def environ_get_def)
  show ?thesis using 1 2 3 4 5 6 by blast
qed

section \<open>Claim C10: error responses and notifications\<close>







end
